theory Spec2Isabelle
  imports Complex_Main
begin

section \<open>JavaScript values and strings\<close>

text \<open>
  A JavaScript string is modelled as a \<open>string\<close> whose characters are read as code units
  \<open>0x00 .. 0xFF\<close> (Latin-1); texts with code units above \<open>0xFF\<close> are outside the model.
  A JavaScript number is modelled as a rational and its arithmetic as exact: every
  constant of the code below is a finite decimal, and the statements below are about
  values for which the rounding of doubles does not change a comparison (see
  \<open>simulated_score_margin\<close> at the end for the scores of the simulation).
\<close>

datatype json =
    JNull
  | JBool bool
  | JNum rat
  | JStr string
  | JArr "json list"
  | JObj "(string \<times> json) list"

datatype js_error = TypeError | SyntaxError | FetchError | HttpError nat

text \<open>\<open>String.prototype.toLowerCase\<close> on Latin-1 code units.\<close>

definition toLowerCase_char :: "char \<Rightarrow> char" where
  "toLowerCase_char c =
     (let n = (of_char c :: nat)
      in if (65 \<le> n \<and> n \<le> 90) \<or> (192 \<le> n \<and> n \<le> 222 \<and> n \<noteq> 215)
         then char_of (n + 32) else c)"

definition toLowerCase :: "string \<Rightarrow> string" where
  "toLowerCase s = map toLowerCase_char s"

text \<open>\<open>s.startsWith(p)\<close>, \<open>s.includes(p)\<close> and \<open>s.indexOf(p) !== -1\<close>.\<close>

fun startsWith :: "string \<Rightarrow> string \<Rightarrow> bool" where
  "startsWith s [] = True"
| "startsWith [] (p # ps) = False"
| "startsWith (c # cs) (p # ps) = (c = p \<and> startsWith cs ps)"

fun str_includes :: "string \<Rightarrow> string \<Rightarrow> bool" where
  "str_includes [] p = (p = [])"
| "str_includes (c # cs) p = (startsWith (c # cs) p \<or> str_includes cs p)"

fun str_indexOf :: "string \<Rightarrow> string \<Rightarrow> int" where
  "str_indexOf [] p = (if p = [] then 0 else -1)"
| "str_indexOf (c # cs) p =
     (if startsWith (c # cs) p then 0
      else (let i = str_indexOf cs p in if i = -1 then -1 else i + 1))"

text \<open>\<open>Array.prototype.indexOf\<close>.\<close>

fun indexOf :: "'a list \<Rightarrow> 'a \<Rightarrow> int" where
  "indexOf [] x = -1"
| "indexOf (y # ys) x =
     (if y = x then 0 else (let i = indexOf ys x in if i = -1 then -1 else i + 1))"

subsection \<open>The regular expressions of the simulation\<close>

text \<open>
  The patterns of \<open>simulateAnalysis\<close> are sequences of literal characters and \<open>\s+\<close>,
  with or without the \<open>i\<close> flag. The \<open>g\<close> flag of the path-traversal pattern has no effect:
  the pattern object is created anew on every call and tested once.
\<close>

datatype atom = Lit char | Spaces

datatype regex = Regex (ignoreCase: bool) (atoms: "atom list")

text \<open>
  Canonicalisation of a code unit under the \<open>i\<close> flag: simple upper-casing. The two
  Latin-1 letters whose upper case lies outside Latin-1 (\<open>0xB5\<close> and \<open>0xFF\<close>) are left as
  they are, which gives the same equalities between Latin-1 code units.
\<close>

definition canonicalize :: "char \<Rightarrow> char" where
  "canonicalize c =
     (let n = (of_char c :: nat)
      in if (97 \<le> n \<and> n \<le> 122) \<or> (224 \<le> n \<and> n \<le> 254 \<and> n \<noteq> 247)
         then char_of (n - 32) else c)"

definition char_matches :: "bool \<Rightarrow> char \<Rightarrow> char \<Rightarrow> bool" where
  "char_matches ic a c = (if ic then canonicalize a = canonicalize c else a = c)"

text \<open>\<open>\s\<close> on Latin-1: tab, line feed, vertical tab, form feed, carriage return, space, NBSP.\<close>

definition is_space :: "char \<Rightarrow> bool" where
  "is_space c = (let n = (of_char c :: nat) in (9 \<le> n \<and> n \<le> 13) \<or> n = 32 \<or> n = 160)"

fun match_here :: "bool \<Rightarrow> atom list \<Rightarrow> string \<Rightarrow> bool" where
  "match_here ic [] s = True"
| "match_here ic (Lit a # ps) [] = False"
| "match_here ic (Lit a # ps) (c # cs) = (char_matches ic a c \<and> match_here ic ps cs)"
| "match_here ic (Spaces # ps) [] = False"
| "match_here ic (Spaces # ps) (c # cs) =
     (is_space c \<and> (match_here ic ps cs \<or> match_here ic (Spaces # ps) cs))"

fun search :: "bool \<Rightarrow> atom list \<Rightarrow> string \<Rightarrow> bool" where
  "search ic ps [] = match_here ic ps []"
| "search ic ps (c # cs) = (match_here ic ps (c # cs) \<or> search ic ps cs)"

text \<open>\<open>p.test(text)\<close>.\<close>

definition test :: "regex \<Rightarrow> string \<Rightarrow> bool" where
  "test p s = search (ignoreCase p) (atoms p) s"

definition lit :: "string \<Rightarrow> atom list" where
  "lit s = map Lit s"

definition patterns_xss :: "regex list" where
  "patterns_xss =
     [Regex True (lit ''<script''), Regex True (lit ''onerror=''),
      Regex True (lit ''<iframe''), Regex True (lit ''javascript:'')]"

definition patterns_sql :: "regex list" where
  "patterns_sql =
     [Regex True (lit ''union'' @ [Spaces] @ lit ''select''),
      Regex True (lit ''drop'' @ [Spaces] @ lit ''table''),
      Regex True (lit ''or'' @ [Spaces] @ lit ''1=1''),
      Regex True (lit [CHR 0x27, CHR '';''])]"

definition patterns_path :: "regex list" where
  "patterns_path =
     [Regex False (lit ''../''), Regex True (lit ''%2e%2e''), Regex True (lit ''etc/passwd'')]"

definition patterns_malicious :: "regex list" where
  "patterns_malicious =
     [Regex True (lit ''hack''), Regex True (lit ''exploit''),
      Regex True (lit ''bypass''), Regex True (lit ''attack'')]"

section \<open>The security analysis route (app/api/cybersecurity/analyze/route.ts)\<close>

text \<open>
  One record stands for the three result objects: \<open>kind\<close> is the field
  \<open>vulnerability_type\<close>, \<open>traffic_type\<close> or \<open>intent\<close> of the source.
\<close>

record model_output =
  kind :: string
  confidence :: rat

record SimulationResults =
  text_length :: nat
  models_used :: "string list"
  vulnerability_classifier :: "model_output option"
  network_analyzer :: "model_output option"
  intent_classifier :: "model_output option"
  overall_threat_level :: "string option"

text \<open>
  The three accumulation steps of \<open>calculateThreatLevel\<close>. The guard
  \<open>results.vulnerability_classifier?.vulnerability_type !== "SAFE"\<close> holds when the object
  is absent (\<open>undefined !== "SAFE"\<close>); the body then reads \<open>.confidence\<close> of \<open>undefined\<close>,
  which throws a TypeError. The intent guards use \<open>===\<close> and are false on an absent object.
\<close>

definition add_vulnerability :: "SimulationResults \<Rightarrow> rat \<Rightarrow> js_error + rat" where
  "add_vulnerability results threatScore =
     (if map_option kind (vulnerability_classifier results) \<noteq> Some ''SAFE''
      then (case vulnerability_classifier results of
              None \<Rightarrow> Inl TypeError
            | Some v \<Rightarrow> Inr (threatScore + confidence v * 3))
      else Inr threatScore)"

definition add_network :: "SimulationResults \<Rightarrow> rat \<Rightarrow> js_error + rat" where
  "add_network results threatScore =
     (if map_option kind (network_analyzer results) \<noteq> Some ''NORMAL''
      then (case network_analyzer results of
              None \<Rightarrow> Inl TypeError
            | Some n \<Rightarrow> Inr (threatScore + confidence n * 2))
      else Inr threatScore)"

definition add_intent :: "SimulationResults \<Rightarrow> rat \<Rightarrow> rat" where
  "add_intent results threatScore =
     (case intent_classifier results of
        None \<Rightarrow> threatScore
      | Some i \<Rightarrow>
          if kind i = ''Malicious'' then threatScore + confidence i * (5 / 2)
          else if kind i = ''Suspicious'' then threatScore + confidence i * 1
          else threatScore)"

text \<open>
  The last five lines of \<open>calculateThreatLevel\<close>, as a function of the value that
  \<open>threatScore\<close> has there. A comparison of a double with one of these literals is exact,
  so this is the thresholding of the code on every finite score.
\<close>

definition threat_level_of :: "rat \<Rightarrow> string" where
  "threat_level_of threatScore =
     (if threatScore \<ge> 5 / 2 then ''critical''
      else if threatScore \<ge> 3 / 2 then ''high''
      else if threatScore \<ge> 1 / 2 then ''medium''
      else if threatScore > 0 then ''low''
      else ''safe'')"

text \<open>
  \<open>calculateThreatLevel\<close> is private to the route and called by \<open>simulateAnalysis\<close> only.
  The code adds doubles and the model adds rationals: the two agree on the verdict for the
  results of \<open>simulateAnalysis\<close>, whose scores stay away from the thresholds (see
  \<open>simulated_score_margin\<close>), and nothing is claimed of the sum on other inputs.
\<close>

definition calculateThreatLevel :: "SimulationResults \<Rightarrow> js_error + string" where
  "calculateThreatLevel results =
     (case add_vulnerability results 0 of
        Inl e \<Rightarrow> Inl e
      | Inr s1 \<Rightarrow>
          (case add_network results s1 of
             Inl e \<Rightarrow> Inl e
           | Inr s2 \<Rightarrow>
               (let threatScore = add_intent results s2
                in Inr (threat_level_of threatScore))))"

definition run_vulnerability_classifier :: "string \<Rightarrow> model_output" where
  "run_vulnerability_classifier text =
     (if list_ex (\<lambda>p. test p text) patterns_xss
        then \<lparr>kind = ''XSS'', confidence = 85 / 100\<rparr>
      else if list_ex (\<lambda>p. test p text) patterns_sql
        then \<lparr>kind = ''SQL_INJECTION'', confidence = 82 / 100\<rparr>
      else if list_ex (\<lambda>p. test p text) patterns_path
        then \<lparr>kind = ''PATH_TRAVERSAL'', confidence = 80 / 100\<rparr>
      else \<lparr>kind = ''SAFE'', confidence = 95 / 100\<rparr>)"

definition run_network_analyzer :: "string \<Rightarrow> model_output" where
  "run_network_analyzer text =
     (if str_indexOf (toLowerCase text) ''ddos'' \<noteq> -1
        then \<lparr>kind = ''DDOS'', confidence = 88 / 100\<rparr>
      else if str_indexOf (toLowerCase text) ''port scan'' \<noteq> -1
        then \<lparr>kind = ''PORT_SCAN'', confidence = 85 / 100\<rparr>
      else if str_indexOf (toLowerCase text) ''brute force'' \<noteq> -1
              \<or> str_indexOf (toLowerCase text) ''failed login'' \<noteq> -1
        then \<lparr>kind = ''BRUTE_FORCE'', confidence = 83 / 100\<rparr>
      else \<lparr>kind = ''NORMAL'', confidence = 90 / 100\<rparr>)"

definition run_intent_classifier :: "string \<Rightarrow> model_output" where
  "run_intent_classifier text =
     (let maliciousCount = length (filter (\<lambda>p. test p text) patterns_malicious)
      in if maliciousCount \<ge> 2 then \<lparr>kind = ''Malicious'', confidence = 75 / 100\<rparr>
         else if maliciousCount = 1 then \<lparr>kind = ''Suspicious'', confidence = 65 / 100\<rparr>
         else \<lparr>kind = ''Legitimate'', confidence = 80 / 100\<rparr>)"

definition simulateAnalysis :: "string \<Rightarrow> string list \<Rightarrow> js_error + SimulationResults" where
  "simulateAnalysis text models =
     (let results0 = \<lparr>text_length = length text, models_used = models,
                      vulnerability_classifier = None, network_analyzer = None,
                      intent_classifier = None, overall_threat_level = None\<rparr>;
          results1 = (if indexOf models ''vulnerability_classifier'' \<noteq> -1
                      then results0\<lparr>vulnerability_classifier :=
                                       Some (run_vulnerability_classifier text)\<rparr>
                      else results0);
          results2 = (if indexOf models ''network_analyzer'' \<noteq> -1
                      then results1\<lparr>network_analyzer := Some (run_network_analyzer text)\<rparr>
                      else results1);
          results3 = (if indexOf models ''intent_classifier'' \<noteq> -1
                      then results2\<lparr>intent_classifier := Some (run_intent_classifier text)\<rparr>
                      else results2)
      in case calculateThreatLevel results3 of
           Inl e \<Rightarrow> Inl e
         | Inr level \<Rightarrow> Inr (results3\<lparr>overall_threat_level := Some level\<rparr>))"


subsection \<open>HTTP calls made by the routes\<close>

text \<open>
  The outcome of one \<open>fetch\<close> is supplied by the environment. \<open>Rejects m\<close> is a promise
  rejected with message \<open>m\<close> (network error, or the abort of \<open>AbortSignal.timeout\<close>);
  \<open>body\<close> is the result
  of \<open>response.json()\<close>, \<open>None\<close> when it rejects; \<open>text_ok\<close> tells whether
  \<open>response.text()\<close> resolves.
\<close>

record http_response =
  code :: nat
  text_ok :: bool
  body :: "json option"

datatype fetch_outcome = Rejects string | Resolves http_response

definition ok :: "http_response \<Rightarrow> bool" where
  "ok r = (200 \<le> code r \<and> code r \<le> 299)"

subsection \<open>POST /api/cybersecurity/analyze\<close>

record SecurityAnalysisRequest =
  req_text :: string
  req_models :: "string list option"

datatype analyze_body =
    ErrorBody string
  | PythonBody json
  | SimulationBody SimulationResults

record analyze_response =
  http_status :: nat
  payload :: analyze_body

definition default_models :: "string list" where
  "default_models = [''vulnerability_classifier'', ''network_analyzer'', ''intent_classifier'']"

text \<open>
  The inner \<open>try\<close> block: the call of the Python server. Reading
  \<open>analysis.overall_threat_level\<close> throws when the parsed body is \<open>null\<close>.
\<close>

definition call_python :: "fetch_outcome \<Rightarrow> js_error + json" where
  "call_python python =
     (case python of
        Rejects m \<Rightarrow> Inl FetchError
      | Resolves pythonResponse \<Rightarrow>
          if ok pythonResponse
          then (case body pythonResponse of
                  None \<Rightarrow> Inl SyntaxError
                | Some JNull \<Rightarrow> Inl TypeError
                | Some analysis \<Rightarrow> Inr analysis)
          else Inl (HttpError (code pythonResponse)))"

text \<open>
  The request is \<open>None\<close> when \<open>request.json()\<close> rejects. The call of \<open>simulateAnalysis\<close>
  sits in the \<open>catch\<close> clause of the inner \<open>try\<close>, so what it throws reaches the outer
  \<open>catch\<close>, which answers 500.
\<close>

definition analyze_POST :: "SecurityAnalysisRequest option \<Rightarrow> fetch_outcome \<Rightarrow> analyze_response" where
  "analyze_POST request python =
     (case request of
        None \<Rightarrow> \<lparr>http_status = 500, payload = ErrorBody ''Internal server error''\<rparr>
      | Some req \<Rightarrow>
          (let ms = (case req_models req of None \<Rightarrow> default_models | Some m \<Rightarrow> m)
           in if req_text req = [] then \<lparr>http_status = 400, payload = ErrorBody ''Text is required''\<rparr>
              else (case call_python python of
                      Inr analysis \<Rightarrow> \<lparr>http_status = 200, payload = PythonBody analysis\<rparr>
                    | Inl pythonError \<Rightarrow>
                        (case simulateAnalysis (req_text req) ms of
                           Inl error \<Rightarrow>
                             \<lparr>http_status = 500, payload = ErrorBody ''Internal server error''\<rparr>
                         | Inr simulatedResults \<Rightarrow>
                             \<lparr>http_status = 200, payload = SimulationBody simulatedResults\<rparr>))))"

subsection \<open>The aggregation rule as the specification words it\<close>

definition spec_weighted_score :: "SimulationResults \<Rightarrow> rat" where
  "spec_weighted_score r =
     (case vulnerability_classifier r of
        None \<Rightarrow> 0
      | Some v \<Rightarrow> if kind v \<noteq> ''SAFE'' then confidence v * 3 else 0)
     + (case network_analyzer r of
          None \<Rightarrow> 0
        | Some n \<Rightarrow> if kind n \<noteq> ''NORMAL'' then confidence n * 2 else 0)
     + (case intent_classifier r of
          None \<Rightarrow> 0
        | Some i \<Rightarrow> if kind i = ''Malicious'' then confidence i * (5 / 2)
                    else if kind i = ''Suspicious'' then confidence i * 1 else 0)"

definition spec_verdict :: "rat \<Rightarrow> string" where
  "spec_verdict score =
     (if score \<ge> 5 / 2 then ''critical''
      else if score \<ge> 3 / 2 then ''high''
      else if score \<ge> 1 / 2 then ''medium''
      else if score > 0 then ''low''
      else ''safe'')"

section \<open>The chat route (app/api/chat/route.ts)\<close>

subsection \<open>Reading parsed JSON\<close>

fun truthy :: "json \<Rightarrow> bool" where
  "truthy JNull = False"
| "truthy (JBool b) = b"
| "truthy (JNum n) = (n \<noteq> 0)"
| "truthy (JStr s) = (s \<noteq> [])"
| "truthy (JArr xs) = True"
| "truthy (JObj kvs) = True"

text \<open>
  The property read \<open>v.key\<close> for the keys used by the route (\<open>message\<close>, \<open>content\<close>,
  \<open>metadata\<close>, \<open>source\<close>), none of which is a built-in property of a string, a number,
  a boolean or an array: it throws on \<open>null\<close>, and gives \<open>undefined\<close> (\<open>None\<close>) on the
  other values that are not objects.
\<close>

fun get_prop :: "json \<Rightarrow> string \<Rightarrow> js_error + json option" where
  "get_prop JNull k = Inl TypeError"
| "get_prop (JObj kvs) k = Inr (map_of kvs k)"
| "get_prop (JBool b) k = Inr None"
| "get_prop (JNum n) k = Inr None"
| "get_prop (JStr s) k = Inr None"
| "get_prop (JArr xs) k = Inr None"

subsection \<open>Responses\<close>

text \<open>
  The fixed texts of the source are named, not spelled out: each constructor of
  \<open>template\<close> stands for one string literal of the source, and the literals are pairwise
  different. \<open>Generic q\<close> is the last template of \<open>generateLocalResponse\<close>, which quotes
  the query \<open>q\<close>. Of the metadata only \<open>source\<close> is kept.
\<close>

datatype template =
    InvalidMessage
  | TechnicalProblem
  | Pricing
  | Features
  | Greeting
  | About
  | Generic string
  | MessageBlocked
  | SecurityMode

datatype content = Absent | Passed json | Template template

record chat_response =
  status :: nat
  content :: content
  source :: json

datatype event = PrimaryCall | FallbackCall | LocalSynthesis

subsection \<open>generateLocalResponse\<close>

definition kw_cout :: string where
  "kw_cout = ''co'' @ [CHR 0xFB] @ ''t''"

definition kw_fonctionnalite :: string where
  "kw_fonctionnalite = ''fonctionnalit'' @ [CHR 0xE9]"

definition local_template :: "string \<Rightarrow> template" where
  "local_template query =
     (let queryLower = toLowerCase query
      in if str_includes queryLower ''prix'' \<or> str_includes queryLower ''tarif''
            \<or> str_includes queryLower kw_cout
           then Pricing
         else if str_includes queryLower kw_fonctionnalite
                 \<or> str_includes queryLower ''feature''
                 \<or> str_includes queryLower ''fonction''
           then Features
         else if str_includes queryLower ''bonjour'' \<or> str_includes queryLower ''salut''
                 \<or> str_includes queryLower ''hello''
           then Greeting
         else if str_includes queryLower ''teamsquare''
                 \<or> str_includes queryLower ''team square''
           then About
         else Generic query)"

definition generateLocalResponse :: "string \<Rightarrow> chat_response" where
  "generateLocalResponse query =
     \<lparr>status = 200, content = Template (local_template query),
      source = JStr ''local_fallback''\<rparr>"

subsection \<open>tryFallbackAPI\<close>

definition content_of :: "json option \<Rightarrow> content" where
  "content_of c = (case c of None \<Rightarrow> Absent | Some v \<Rightarrow> Passed v)"

text \<open>
  The \<open>try\<close> block of \<open>tryFallbackAPI\<close>: \<open>Inr (Some r)\<close> when it returns the response
  \<open>r\<close>, \<open>Inr None\<close> when it falls through (the status is not 2xx), \<open>Inl e\<close> when it
  throws. \<open>fallbackData.content\<close> is read without a check.
\<close>

definition fallback_try :: "fetch_outcome \<Rightarrow> js_error + chat_response option" where
  "fallback_try fallback =
     (case fallback of
        Rejects m \<Rightarrow> Inl FetchError
      | Resolves fallbackResponse \<Rightarrow>
          if ok fallbackResponse
          then (case body fallbackResponse of
                  None \<Rightarrow> Inl SyntaxError
                | Some fallbackData \<Rightarrow>
                    (case get_prop fallbackData ''content'' of
                       Inl e \<Rightarrow> Inl e
                     | Inr c \<Rightarrow>
                         Inr (Some \<lparr>status = 200, content = content_of c,
                                    source = JStr ''fallback_api''\<rparr>)))
          else Inr None)"

definition tryFallbackAPI :: "string \<Rightarrow> fetch_outcome \<Rightarrow> chat_response \<times> event list" where
  "tryFallbackAPI query fallback =
     (case fallback_try fallback of
        Inr (Some r) \<Rightarrow> (r, [FallbackCall])
      | Inr None \<Rightarrow> (generateLocalResponse query, [FallbackCall, LocalSynthesis])
      | Inl fallbackError \<Rightarrow> (generateLocalResponse query, [FallbackCall, LocalSynthesis]))"

subsection \<open>POST /api/chat\<close>

text \<open>\<open>data.metadata?.source || "agentic_agent"\<close>.\<close>

definition backend_source :: "json \<Rightarrow> json" where
  "backend_source data =
     (case get_prop data ''metadata'' of
        Inr (Some JNull) \<Rightarrow> JStr ''agentic_agent''
      | Inr (Some metadata) \<Rightarrow>
          (case get_prop metadata ''source'' of
             Inr (Some s) \<Rightarrow> if truthy s then s else JStr ''agentic_agent''
           | Inr None \<Rightarrow> JStr ''agentic_agent''
           | Inl e \<Rightarrow> JStr ''agentic_agent'')
      | Inr None \<Rightarrow> JStr ''agentic_agent''
      | Inl e \<Rightarrow> JStr ''agentic_agent'')"

text \<open>
  The inner \<open>try\<close> block of \<open>POST\<close>, with the same three outcomes as \<open>fallback_try\<close>;
  \<open>Inr None\<close> is a \<open>return await tryFallbackAPI(adaptedBody)\<close> inside the block and
  \<open>Inl e\<close> reaches the \<open>catch\<close> clause, which makes the same call. The logging line
  reads \<open>data.content\<close> and throws when \<open>data\<close> is \<open>null\<close>.
\<close>

definition primary_try :: "fetch_outcome \<Rightarrow> js_error + chat_response option" where
  "primary_try primary =
     (case primary of
        Rejects m \<Rightarrow> Inl FetchError
      | Resolves response \<Rightarrow>
          if \<not> ok response
          then (if text_ok response then Inr None else Inl FetchError)
          else (case body response of
                  None \<Rightarrow> Inl SyntaxError
                | Some data \<Rightarrow>
                    (case get_prop data ''content'' of
                       Inl e \<Rightarrow> Inl e
                     | Inr c \<Rightarrow>
                         if \<not> truthy data \<or> c = None then Inr None
                         else Inr (Some \<lparr>status = 200, content = content_of c,
                                         source = backend_source data\<rparr>))))"

definition error_handler_response :: chat_response where
  "error_handler_response =
     \<lparr>status = 500, content = Template TechnicalProblem, source = JStr ''error_handler''\<rparr>"

definition validation_response :: chat_response where
  "validation_response =
     \<lparr>status = 400, content = Template InvalidMessage, source = JStr ''validation''\<rparr>"

text \<open>
  The first logging line evaluates \<open>body.message?.substring(0, 50)\<close>: the optional chain
  stops on \<open>undefined\<close> and \<open>null\<close> only, so a message that is neither a string nor
  nullish makes the call of the missing method throw.
\<close>

definition logging_throws :: "json option \<Rightarrow> bool" where
  "logging_throws message =
     (case message of
        None \<Rightarrow> False
      | Some JNull \<Rightarrow> False
      | Some (JStr m) \<Rightarrow> False
      | Some v \<Rightarrow> True)"

text \<open>
  The request is \<open>None\<close> when \<open>request.json()\<close> rejects. The result pairs the response
  with the calls made, in order.
\<close>

definition chat_POST ::
  "json option \<Rightarrow> fetch_outcome \<Rightarrow> fetch_outcome \<Rightarrow> chat_response \<times> event list" where
  "chat_POST request primary fallback =
     (case request of
        None \<Rightarrow> (error_handler_response, [])
      | Some reqBody \<Rightarrow>
          (case get_prop reqBody ''message'' of
             Inl e \<Rightarrow> (error_handler_response, [])
           | Inr message \<Rightarrow>
               if logging_throws message then (error_handler_response, [])
               else (case message of
                       Some (JStr m) \<Rightarrow>
                         if m = [] then (validation_response, [])
                         else (case primary_try primary of
                                 Inr (Some r) \<Rightarrow> (r, [PrimaryCall])
                               | Inr None \<Rightarrow>
                                   (let (r, calls) = tryFallbackAPI m fallback
                                    in (r, PrimaryCall # calls))
                               | Inl fetchError \<Rightarrow>
                                   (let (r, calls) = tryFallbackAPI m fallback
                                    in (r, PrimaryCall # calls)))
                     | _ \<Rightarrow> (validation_response, []))))"

section \<open>The admin route (app/api/admin-security/route.ts)\<close>

datatype threat_level = Safe | Warning | Danger

datatype alert_type = Vulnerability | Network | Intent | System

datatype severity = Low | Medium | High | Critical

text \<open>
  Of an alert the type and the severity are kept; of the system state the fields that the
  block and unblock actions write. Identifiers, timestamps and message texts are left out.
\<close>

record SecurityAlert =
  alert_type :: alert_type
  severity :: severity

record SystemState =
  blocked :: bool
  threat_level :: threat_level
  active_threats :: "json list"

record UserActivity =
  session_id :: string
  messages_count :: nat
  threat_score :: rat
  user_blocked :: bool

text \<open>The module-level variables \<open>systemState\<close>, \<open>mockAlerts\<close> and \<open>userActivities\<close>.\<close>

record server =
  systemState :: SystemState
  mockAlerts :: "SecurityAlert list"
  userActivities :: "UserActivity list"

definition initial_server :: server where
  "initial_server =
     \<lparr>systemState = \<lparr>blocked = False, threat_level = Safe, active_threats = []\<rparr>,
      mockAlerts =
        [\<lparr>alert_type = Vulnerability, severity = Critical\<rparr>,
         \<lparr>alert_type = Intent, severity = High\<rparr>,
         \<lparr>alert_type = Network, severity = Medium\<rparr>],
      userActivities =
        [\<lparr>session_id = ''user_123'', messages_count = 15, threat_score = 8 / 10,
          user_blocked = True\<rparr>,
         \<lparr>session_id = ''user_456'', messages_count = 8, threat_score = 9 / 10,
          user_blocked = True\<rparr>,
         \<lparr>session_id = ''user_789'', messages_count = 3, threat_score = 1 / 10,
          user_blocked = False\<rparr>]\<rparr>"

datatype admin_response = AdminError nat | AdminSuccess SystemState

text \<open>
  Both actions first await a \<open>fetch\<close> to the backend inside their \<open>try\<close> block; a rejected
  \<open>fetch\<close> goes to the \<open>catch\<close> clause, which answers 500 before any state is written.
  A resolved \<open>fetch\<close> is not inspected, whatever its status.
\<close>

definition block_system :: "fetch_outcome \<Rightarrow> server \<Rightarrow> admin_response \<times> server" where
  "block_system backend srv =
     (case backend of
        Rejects m \<Rightarrow> (AdminError 500, srv)
      | Resolves response \<Rightarrow>
          (let st = (systemState srv)\<lparr>blocked := True, threat_level := Danger\<rparr>;
               blockAlert = \<lparr>alert_type = System, severity = Critical\<rparr>
           in (AdminSuccess st,
               srv\<lparr>systemState := st, mockAlerts := blockAlert # mockAlerts srv\<rparr>)))"

definition unblock_user :: "UserActivity \<Rightarrow> UserActivity" where
  "unblock_user user =
     (if user_blocked user
      then user\<lparr>user_blocked := False,
                threat_score := max (1 / 10) (threat_score user - 3 / 10)\<rparr>
      else user)"

definition unblock_system :: "fetch_outcome \<Rightarrow> server \<Rightarrow> admin_response \<times> server" where
  "unblock_system backend srv =
     (case backend of
        Rejects m \<Rightarrow> (AdminError 500, srv)
      | Resolves response \<Rightarrow>
          (let st = (systemState srv)\<lparr>blocked := False, threat_level := Safe,
                                      active_threats := []\<rparr>
           in (AdminSuccess st,
               srv\<lparr>systemState := st,
                   userActivities := map unblock_user (userActivities srv)\<rparr>)))"

text \<open>
  The chat route and the analysis route are modules of their own: they neither read nor
  write the variables of the admin route. Run in a server whose admin state is \<open>srv\<close>,
  they leave it as it is.
\<close>

definition chat_route ::
  "server \<Rightarrow> json option \<Rightarrow> fetch_outcome \<Rightarrow> fetch_outcome
   \<Rightarrow> (chat_response \<times> event list) \<times> server" where
  "chat_route srv request primary fallback = (chat_POST request primary fallback, srv)"

definition analyze_route ::
  "server \<Rightarrow> SecurityAnalysisRequest option \<Rightarrow> fetch_outcome \<Rightarrow> analyze_response \<times> server" where
  "analyze_route srv request python = (analyze_POST request python, srv)"

section \<open>The API helper (lib/api-config.ts)\<close>


text \<open>
  The errors that the \<open>catch\<close> clause of \<open>apiCall\<close> can see: what a rejected \<open>fetch\<close>
  throws (with its message), the \<open>Error\<close> thrown for a status that is not 2xx, what
  \<open>response.json()\<close> throws, and the \<open>TimeoutError\<close> of the timeout signal.
\<close>

datatype api_error =
  FetchRejected string | HttpStatus nat | JsonRejected | TimeoutError | UnknownError

datatype api_source = Backend | Fallback | Local

record ApiResponse =
  api_success :: bool
  api_data :: "json option"
  api_failure :: "api_error option"
  api_source :: api_source


datatype api_event = Request string | Cancelled | NotSent | Pause nat




definition after_events :: "api_event list \<Rightarrow> ApiResponse \<times> api_event list
                            \<Rightarrow> ApiResponse \<times> api_event list" where
  "after_events evs r = (fst r, evs @ snd r)"





subsection \<open>generateLocalChatResponse\<close>

datatype lib_template = LibPricing | LibFeatures | LibGreeting | LibGeneric

definition generateLocalChatResponse :: "string \<Rightarrow> lib_template" where
  "generateLocalChatResponse message =
     (let messageLower = toLowerCase message
      in if str_includes messageLower ''prix'' \<or> str_includes messageLower ''tarif''
           then LibPricing
         else if str_includes messageLower kw_fonctionnalite
                 \<or> str_includes messageLower ''feature''
           then LibFeatures
         else if str_includes messageLower ''bonjour'' \<or> str_includes messageLower ''hello''
           then LibGreeting
         else LibGeneric)"

section \<open>The chat page (app/page.tsx)\<close>

text \<open>
  The component state that the send path reads and writes. A message of the conversation
  is kept with its sender and what tells two messages of a sender apart: the text of a
  user message, the alert that a security message reports, the content and
  \<open>metadata.source\<close> of an assistant message. The analysis received from
  \<open>/api/cybersecurity/analyze\<close> is taken with the shape the route gives it; \<open>None\<close> stands
  for a call that fails or answers with a status that is not 2xx. The confidences of an
  analysis are compared with the literals \<open>0.8\<close> and \<open>0.5\<close> only, never added.
\<close>

datatype message =
    UserMessage string
  | SecurityMessage SecurityAlert
  | AssistantMessage content json

record page_state =
  messages :: "message list"
  input :: string
  isLoading :: bool
  isSystemBlocked :: bool
  threatLevel :: threat_level
  securityAlerts :: "SecurityAlert list"

text \<open>\<open>String.prototype.trim\<close> on the characters of a Latin-1 string.\<close>

definition trim :: "string \<Rightarrow> string" where
  "trim s = rev (dropWhile is_space (rev (dropWhile is_space s)))"

datatype page_event = AnalyzeRequest | ChatRequest

definition analyzeMessageSecurity :: "SimulationResults option \<Rightarrow> SecurityAlert list" where
  "analyzeMessageSecurity received =
     (case received of
        None \<Rightarrow> []
      | Some analysis \<Rightarrow>
          (case vulnerability_classifier analysis of
             None \<Rightarrow> []
           | Some vulnerabilityResult \<Rightarrow>
               if kind vulnerabilityResult \<noteq> ''SAFE''
               then [\<lparr>alert_type = Vulnerability,
                      severity = (if confidence vulnerabilityResult > 8 / 10
                                  then Critical else High)\<rparr>]
               else [])
          @ (case network_analyzer analysis of
               None \<Rightarrow> []
             | Some networkResult \<Rightarrow>
                 if kind networkResult \<noteq> ''NORMAL''
                 then [\<lparr>alert_type = Network,
                        severity = (if kind networkResult = ''DDOS''
                                    then Critical else High)\<rparr>]
                 else [])
          @ (case intent_classifier analysis of
               None \<Rightarrow> []
             | Some intentResult \<Rightarrow>
                 if kind intentResult = ''Malicious''
                 then [\<lparr>alert_type = Intent,
                        severity = (if confidence intentResult > 5 / 10
                                    then High else Medium)\<rparr>]
                 else []))"

definition handleThreatDetected :: "page_state \<Rightarrow> SecurityAlert \<Rightarrow> page_state" where
  "handleThreatDetected st alert =
     (let st1 = st\<lparr>securityAlerts := alert # securityAlerts st\<rparr>
      in if severity alert = Critical
         then st1\<lparr>threatLevel := Danger, isSystemBlocked := True,
                  messages := messages st1 @ [SecurityMessage alert]\<rparr>
         else st1)"

text \<open>
  \<open>handleSendMessage\<close>: the reply (content and \<open>metadata.source\<close>), the requests made and
  the new component state. \<open>chat\<close> is what \<open>POST /api/chat\<close> answers if it is called,
  \<open>None\<close> when that \<open>fetch\<close> rejects. The test \<open>!isSystemBlocked\<close> reads the flag of the
  render in which the handler was created, that is the state before the call.
\<close>

definition handleSendMessage ::
  "page_state \<Rightarrow> SimulationResults option \<Rightarrow> chat_response option
   \<Rightarrow> (content \<times> json) \<times> page_event list \<times> page_state" where
  "handleSendMessage st received chat =
     (let alerts = analyzeMessageSecurity received;
          st' = foldl handleThreatDetected st alerts
      in if list_ex (\<lambda>a. severity a = Critical) alerts
         then ((Template MessageBlocked, JStr ''security_block''), [AnalyzeRequest], st')
         else if \<not> isSystemBlocked st
         then (case chat of
                 Some response \<Rightarrow>
                   if 200 \<le> status response \<and> status response \<le> 299
                   then ((content response, source response),
                         [AnalyzeRequest, ChatRequest], st')
                   else ((Template SecurityMode, JStr ''security_mode''),
                         [AnalyzeRequest, ChatRequest], st')
               | None \<Rightarrow>
                   ((Template SecurityMode, JStr ''security_mode''),
                    [AnalyzeRequest, ChatRequest], st'))
         else ((Template SecurityMode, JStr ''security_mode''), [AnalyzeRequest], st'))"

text \<open>
  \<open>handleSend\<close>, the handler of the send button and of the Enter key, and the only caller
  of \<open>handleSendMessage\<close>: the requests made and the new component state. It returns at
  once when the input is blank, a send is in progress or the block flag is set; otherwise
  it adds the user's message, clears the input, and adds the reply of \<open>handleSendMessage\<close>
  as an assistant message. Both handlers are closures of one render, so the flag that
  \<open>handleSendMessage\<close> tests is the one that \<open>handleSend\<close> has just tested.
\<close>

definition handleSend ::
  "page_state \<Rightarrow> SimulationResults option \<Rightarrow> chat_response option
   \<Rightarrow> page_event list \<times> page_state" where
  "handleSend st received chat =
     (if trim (input st) = [] \<or> isLoading st \<or> isSystemBlocked st then ([], st)
      else
        (let st1 = st\<lparr>messages := messages st @ [UserMessage (input st)],
                      input := [], isLoading := True\<rparr>
         in case handleSendMessage st1 received chat of
              ((c, m), events, st2) \<Rightarrow>
                (events,
                 st2\<lparr>messages := messages st2 @ [AssistantMessage c m],
                     isLoading := False\<rparr>)))"

section \<open>Notions of the specification\<close>

text \<open>
  A chat request that carries the non-empty string \<open>m\<close> as its message, and a tier that
  succeeds: a 2xx response whose body parses to an object with a \<open>content\<close> field.
\<close>

definition valid_request :: "json option \<Rightarrow> string \<Rightarrow> bool" where
  "valid_request request m =
     (case request of
        Some (JObj kvs) \<Rightarrow> map_of kvs ''message'' = Some (JStr m) \<and> m \<noteq> []
      | _ \<Rightarrow> False)"

definition has_content :: "json \<Rightarrow> bool" where
  "has_content d = (case d of JObj kvs \<Rightarrow> map_of kvs ''content'' \<noteq> None | _ \<Rightarrow> False)"

definition tier_succeeds :: "fetch_outcome \<Rightarrow> bool" where
  "tier_succeeds outcome =
     (case outcome of
        Rejects m \<Rightarrow> False
      | Resolves r \<Rightarrow> ok r \<and> (case body r of None \<Rightarrow> False | Some d \<Rightarrow> has_content d))"

text \<open>
  What the route takes as an answer of the fallback tier: a 2xx response whose body parses
  to a value other than \<open>null\<close>, with or without a \<open>content\<close> field.
\<close>

definition fallback_answers :: "fetch_outcome \<Rightarrow> bool" where
  "fallback_answers outcome =
     (case outcome of
        Rejects m \<Rightarrow> False
      | Resolves r \<Rightarrow>
          ok r \<and> (case body r of None \<Rightarrow> False | Some JNull \<Rightarrow> False | Some d \<Rightarrow> True))"

text \<open>The primary backend answers 2xx with a body whose own source tag is \<open>s\<close>.\<close>

definition primary_reports :: "fetch_outcome \<Rightarrow> json \<Rightarrow> bool" where
  "primary_reports primary s =
     (case primary of
        Rejects m \<Rightarrow> False
      | Resolves r \<Rightarrow> ok r \<and> (case body r of None \<Rightarrow> False | Some d \<Rightarrow> backend_source d = s))"

text \<open>A reply that can be shown is a string: a fixed text of the route or a JSON string.\<close>

definition displayable :: "content \<Rightarrow> bool" where
  "displayable c =
     (case c of Template t \<Rightarrow> True | Passed (JStr s) \<Rightarrow> True | Passed v \<Rightarrow> False | Absent \<Rightarrow> False)"

text \<open>
  An ordered list of keyword rules, the first rule with a keyword in the text winning.
\<close>

fun first_match :: "string \<Rightarrow> (string list \<times> 'a) list \<Rightarrow> 'a option" where
  "first_match q [] = None"
| "first_match q ((kws, t) # rules) =
     (if list_ex (str_includes q) kws then Some t else first_match q rules)"

definition pricing_keywords :: "string list" where
  "pricing_keywords = [''prix'', ''tarif'', kw_cout]"

definition feature_keywords :: "string list" where
  "feature_keywords = [kw_fonctionnalite, ''feature'', ''fonction'']"

definition greeting_keywords :: "string list" where
  "greeting_keywords = [''bonjour'', ''salut'', ''hello'']"

definition route_rules :: "(string list \<times> template) list" where
  "route_rules =
     [(pricing_keywords, Pricing), (feature_keywords, Features),
      (greeting_keywords, Greeting), ([''teamsquare'', ''team square''], About)]"

definition lib_rules :: "(string list \<times> lib_template) list" where
  "lib_rules =
     [([''prix'', ''tarif''], LibPricing), ([kw_fonctionnalite, ''feature''], LibFeatures),
      ([''bonjour'', ''hello''], LibGreeting)]"







text \<open>The passes through the loop that a trace shows: a request, or a call that sent none.\<close>

definition attempts_made :: "api_event list \<Rightarrow> nat" where
  "attempts_made evs =
     length (filter (\<lambda>ev. case ev of Request u \<Rightarrow> True | NotSent \<Rightarrow> True
                           | Cancelled \<Rightarrow> False | Pause d \<Rightarrow> False) evs)"



text \<open>An alert of severity critical.\<close>

abbreviation critical :: "SecurityAlert \<Rightarrow> bool" where
  "critical a \<equiv> severity a = Critical"

text \<open>The state in which \<open>handleSend\<close> calls \<open>handleSendMessage\<close>.\<close>

definition sending :: "page_state \<Rightarrow> page_state" where
  "sending st = st\<lparr>messages := messages st @ [UserMessage (input st)],
                   input := [], isLoading := True\<rparr>"

section \<open>Concrete inputs\<close>

definition safe_output :: model_output where
  "safe_output = \<lparr>kind = ''SAFE'', confidence = 95 / 100\<rparr>"

definition normal_output :: model_output where
  "normal_output = \<lparr>kind = ''NORMAL'', confidence = 90 / 100\<rparr>"

definition legitimate_output :: model_output where
  "legitimate_output = \<lparr>kind = ''Legitimate'', confidence = 80 / 100\<rparr>"

definition xss_text :: string where
  "xss_text = ''<script>alert(1)</script>''"

definition xss_results :: SimulationResults where
  "xss_results =
     \<lparr>text_length = 25, models_used = default_models,
      vulnerability_classifier = Some \<lparr>kind = ''XSS'', confidence = 85 / 100\<rparr>,
      network_analyzer = Some normal_output,
      intent_classifier = Some legitimate_output,
      overall_threat_level = Some ''critical''\<rparr>"

text \<open>Results of the simulation, one for each term and weight of the score.\<close>

definition ddos_results :: SimulationResults where
  "ddos_results =
     \<lparr>text_length = 4, models_used = default_models,
      vulnerability_classifier = Some safe_output,
      network_analyzer = Some \<lparr>kind = ''DDOS'', confidence = 88 / 100\<rparr>,
      intent_classifier = Some legitimate_output,
      overall_threat_level = Some ''high''\<rparr>"

definition path_results :: SimulationResults where
  "path_results =
     \<lparr>text_length = 3, models_used = default_models,
      vulnerability_classifier = Some \<lparr>kind = ''PATH_TRAVERSAL'', confidence = 80 / 100\<rparr>,
      network_analyzer = Some normal_output,
      intent_classifier = Some legitimate_output,
      overall_threat_level = Some ''high''\<rparr>"

definition malicious_results :: SimulationResults where
  "malicious_results =
     \<lparr>text_length = 11, models_used = default_models,
      vulnerability_classifier = Some safe_output,
      network_analyzer = Some normal_output,
      intent_classifier = Some \<lparr>kind = ''Malicious'', confidence = 75 / 100\<rparr>,
      overall_threat_level = Some ''high''\<rparr>"

definition quiet_results :: SimulationResults where
  "quiet_results =
     \<lparr>text_length = 2, models_used = default_models,
      vulnerability_classifier = Some safe_output,
      network_analyzer = Some normal_output,
      intent_classifier = Some legitimate_output,
      overall_threat_level = Some ''safe''\<rparr>"

definition hack_results :: SimulationResults where
  "hack_results =
     \<lparr>text_length = 4, models_used = default_models,
      vulnerability_classifier = Some safe_output,
      network_analyzer = Some normal_output,
      intent_classifier = Some \<lparr>kind = ''Suspicious'', confidence = 65 / 100\<rparr>,
      overall_threat_level = Some ''medium''\<rparr>"

definition hello_request :: "json option" where
  "hello_request = Some (JObj [(''message'', JStr ''hello'')])"

definition answer :: "json \<Rightarrow> fetch_outcome" where
  "answer d = Resolves \<lparr>code = 200, text_ok = True, body = Some d\<rparr>"

definition spoofing_backend :: fetch_outcome where
  "spoofing_backend =
     answer (JObj [(''content'', JStr ''ok''),
                   (''metadata'', JObj [(''source'', JStr ''local_fallback'')])])"

definition hi_backend :: fetch_outcome where
  "hi_backend = answer (JObj [(''content'', JStr ''hi'')])"

definition empty_fallback :: fetch_outcome where
  "empty_fallback = answer (JObj [])"

text \<open>
  A status 500 that carries a well-formed reply, a 2xx body that is \<open>null\<close>, and a 2xx
  body that does not parse.
\<close>

definition failing_backend :: fetch_outcome where
  "failing_backend =
     Resolves \<lparr>code = 500, text_ok = True,
               body = Some (JObj [(''content'', JStr ''hi'')])\<rparr>"

definition null_backend :: fetch_outcome where
  "null_backend = answer JNull"

definition garbled_backend :: fetch_outcome where
  "garbled_backend = Resolves \<lparr>code = 200, text_ok = True, body = None\<rparr>"

definition blocked_server :: server where
  "blocked_server = snd (block_system (answer JNull) initial_server)"

text \<open>
  The page as it is after the text \<open>xss_text\<close> has been sent from a fresh page (lemma
  \<open>blocked_page_reached\<close>).
\<close>

definition blocked_page :: page_state where
  "blocked_page =
     \<lparr>messages = [UserMessage xss_text,
                   SecurityMessage \<lparr>alert_type = Vulnerability, severity = Critical\<rparr>,
                   AssistantMessage (Template MessageBlocked) (JStr ''security_block'')],
      input = [], isLoading = False, isSystemBlocked = True, threatLevel = Danger,
      securityAlerts = [\<lparr>alert_type = Vulnerability, severity = Critical\<rparr>]\<rparr>"








text \<open>A page on which nothing has been sent yet, with the text \<open>t\<close> typed into the input.\<close>

definition fresh_page :: "string \<Rightarrow> page_state" where
  "fresh_page t = \<lparr>messages = [], input = t, isLoading = False, isSystemBlocked = False,
                    threatLevel = Safe, securityAlerts = []\<rparr>"

definition hi_reply :: chat_response where
  "hi_reply = \<lparr>status = 200, content = Passed (JStr ''hi''), source = JStr ''agentic_agent''\<rparr>"

definition xss_request :: "SecurityAnalysisRequest option" where
  "xss_request = Some \<lparr>req_text = xss_text, req_models = None\<rparr>"

section \<open>Properties of the security analysis\<close>

lemma indexOf_ge: "indexOf xs x \<ge> -1"
  by (induction xs) (auto simp: Let_def)

lemma indexOf_found: "indexOf xs x \<noteq> -1 \<longleftrightarrow> x \<in> set xs"
proof (induction xs)
  case Nil
  show ?case by simp
next
  case (Cons y ys)
  have "indexOf ys x \<ge> -1" by (rule indexOf_ge)
  then have "indexOf ys x + 1 \<noteq> -1" by linarith
  with Cons show ?case by (auto simp: Let_def)
qed

lemma calculateThreatLevel_absent:
  "vulnerability_classifier r = None \<or> network_analyzer r = None
   \<Longrightarrow> calculateThreatLevel r = Inl TypeError"
  by (auto simp: calculateThreatLevel_def add_vulnerability_def add_network_def
           split: option.splits sum.splits)

lemma calculateThreatLevel_score:
  assumes "calculateThreatLevel r = Inr v"
  shows "v = spec_verdict (spec_weighted_score r)"
proof -
  from assms obtain vr nr where vr: "vulnerability_classifier r = Some vr"
    and nr: "network_analyzer r = Some nr"
    using calculateThreatLevel_absent [of r] by (cases "vulnerability_classifier r";
      cases "network_analyzer r") auto
  define a where "a = (if kind vr \<noteq> ''SAFE'' then confidence vr * 3 else 0)"
  define b where "b = (if kind nr \<noteq> ''NORMAL'' then confidence nr * 2 else 0)"
  have s1: "add_vulnerability r 0 = Inr a"
    by (simp add: add_vulnerability_def vr a_def)
  have s2: "add_network r a = Inr (a + b)"
    by (simp add: add_network_def nr b_def)
  have s3: "add_intent r (a + b) = spec_weighted_score r"
    by (simp add: add_intent_def spec_weighted_score_def vr nr a_def b_def
             split: option.splits)
  have "calculateThreatLevel r = Inr (spec_verdict (spec_weighted_score r))"
    by (simp add: calculateThreatLevel_def threat_level_of_def s1 s2 s3 spec_verdict_def Let_def)
  with assms show ?thesis by simp
qed

lemma simulateAnalysis_level:
  assumes "simulateAnalysis txt ms = Inr results"
  shows "\<exists>r level. calculateThreatLevel r = Inr level
           \<and> results = r\<lparr>overall_threat_level := Some level\<rparr>"
  using assms unfolding simulateAnalysis_def Let_def
  by (auto split: sum.splits)

lemma spec_weighted_score_level [simp]:
  "spec_weighted_score (r\<lparr>overall_threat_level := l\<rparr>) = spec_weighted_score r"
  by (simp add: spec_weighted_score_def)

lemma simulateAnalysis_verdict:
  assumes "simulateAnalysis txt ms = Inr results"
  shows "overall_threat_level results = Some (spec_verdict (spec_weighted_score results))"
proof -
  from simulateAnalysis_level [OF assms] obtain r level
    where c: "calculateThreatLevel r = Inr level"
      and r: "results = r\<lparr>overall_threat_level := Some level\<rparr>" by blast
  from calculateThreatLevel_score [OF c] show ?thesis by (simp add: r)
qed

lemma simulateAnalysis_absent:
  assumes "''vulnerability_classifier'' \<notin> set ms \<or> ''network_analyzer'' \<notin> set ms"
  shows "simulateAnalysis txt ms = Inl TypeError"
proof -
  have v: "indexOf ms ''vulnerability_classifier'' = -1" if "''vulnerability_classifier'' \<notin> set ms"
    using that indexOf_found [of ms "''vulnerability_classifier''"] by simp
  have n: "indexOf ms ''network_analyzer'' = -1" if "''network_analyzer'' \<notin> set ms"
    using that indexOf_found [of ms "''network_analyzer''"] by simp
  from assms show ?thesis
  proof
    assume a: "''vulnerability_classifier'' \<notin> set ms"
    show ?thesis
      unfolding simulateAnalysis_def Let_def
      by (subst calculateThreatLevel_absent) (simp_all add: v [OF a])
  next
    assume a: "''network_analyzer'' \<notin> set ms"
    show ?thesis
      unfolding simulateAnalysis_def Let_def
      by (subst calculateThreatLevel_absent) (simp_all add: n [OF a])
  qed
qed

lemma calculateThreatLevel_returns:
  assumes "vulnerability_classifier r \<noteq> None" and "network_analyzer r \<noteq> None"
  shows "\<exists>v. calculateThreatLevel r = Inr v"
proof -
  from assms obtain vr nr where "vulnerability_classifier r = Some vr"
    and "network_analyzer r = Some nr" by auto
  then show ?thesis
    by (simp add: calculateThreatLevel_def add_vulnerability_def add_network_def Let_def)
qed

lemma simulate_hack: "simulateAnalysis ''hack'' default_models = Inr hack_results"
  by code_simp

lemma simulate_xss: "simulateAnalysis xss_text default_models = Inr xss_results"
  by code_simp

lemma simulate_ddos: "simulateAnalysis ''ddos'' default_models = Inr ddos_results"
  by code_simp

lemma simulate_path: "simulateAnalysis ''../'' default_models = Inr path_results"
  by code_simp

lemma simulate_malicious:
  "simulateAnalysis ''hack attack'' default_models = Inr malicious_results"
  by code_simp

lemma simulate_quiet: "simulateAnalysis ''hi'' default_models = Inr quiet_results"
  by code_simp

lemmas example_defs = safe_output_def normal_output_def legitimate_output_def
  xss_results_def ddos_results_def path_results_def malicious_results_def
  quiet_results_def hack_results_def

text \<open>
  Claim C2. For every result of the simulation the aggregated verdict is the thresholding
  of the weighted score: the vulnerability confidence times 3 when the type is not SAFE,
  plus the network confidence times 2 when the traffic is not NORMAL, plus the intent
  confidence times 2.5 when the intent is Malicious or times 1 when it is Suspicious;
  critical from 2.5, high from 1.5, medium from 0.5, low above 0, safe otherwise. The
  thresholding of the code is this one at every score, so that scores of exactly 2.5, 1.5,
  0.5, 0.01 and 0 give critical, high, medium, low and safe.
\<close>

theorem C2_aggregated_verdict:
  "(simulateAnalysis txt ms = Inr results \<longrightarrow>
      overall_threat_level results = Some (spec_verdict (spec_weighted_score results)))
   \<and> threat_level_of s = spec_verdict s
   \<and> threat_level_of (5 / 2) = ''critical''
   \<and> threat_level_of (3 / 2) = ''high''
   \<and> threat_level_of (1 / 2) = ''medium''
   \<and> threat_level_of (1 / 100) = ''low''
   \<and> threat_level_of 0 = ''safe''"
proof (intro conjI impI)
  assume "simulateAnalysis txt ms = Inr results"
  then show "overall_threat_level results = Some (spec_verdict (spec_weighted_score results))"
    by (rule simulateAnalysis_verdict)
qed (simp_all add: threat_level_of_def spec_verdict_def)

theorem C2_aggregated_verdict_witness:
  "simulateAnalysis xss_text default_models = Inr xss_results
   \<and> spec_weighted_score xss_results = 255 / 100
   \<and> overall_threat_level xss_results = Some (spec_verdict (255 / 100))
   \<and> overall_threat_level xss_results = Some ''critical''
   \<and> simulateAnalysis ''../'' default_models = Inr path_results
   \<and> spec_weighted_score path_results = 240 / 100
   \<and> overall_threat_level path_results = Some (spec_verdict (240 / 100))
   \<and> overall_threat_level path_results = Some ''high''
   \<and> simulateAnalysis ''ddos'' default_models = Inr ddos_results
   \<and> spec_weighted_score ddos_results = 176 / 100
   \<and> overall_threat_level ddos_results = Some (spec_verdict (176 / 100))
   \<and> overall_threat_level ddos_results = Some ''high''
   \<and> simulateAnalysis ''hack attack'' default_models = Inr malicious_results
   \<and> spec_weighted_score malicious_results = 1875 / 1000
   \<and> overall_threat_level malicious_results = Some (spec_verdict (1875 / 1000))
   \<and> overall_threat_level malicious_results = Some ''high''
   \<and> simulateAnalysis ''hack'' default_models = Inr hack_results
   \<and> spec_weighted_score hack_results = 65 / 100
   \<and> overall_threat_level hack_results = Some (spec_verdict (65 / 100))
   \<and> overall_threat_level hack_results = Some ''medium''
   \<and> simulateAnalysis ''hi'' default_models = Inr quiet_results
   \<and> spec_weighted_score quiet_results = 0
   \<and> overall_threat_level quiet_results = Some (spec_verdict 0)
   \<and> overall_threat_level quiet_results = Some ''safe''"
proof -
  note V = C2_aggregated_verdict [THEN conjunct1, THEN mp]
  have s1: "spec_weighted_score xss_results = 255 / 100"
    by (simp add: spec_weighted_score_def example_defs)
  have s2: "spec_weighted_score path_results = 240 / 100"
    by (simp add: spec_weighted_score_def example_defs)
  have s3: "spec_weighted_score ddos_results = 176 / 100"
    by (simp add: spec_weighted_score_def example_defs)
  have s4: "spec_weighted_score malicious_results = 1875 / 1000"
    by (simp add: spec_weighted_score_def example_defs)
  have s5: "spec_weighted_score hack_results = 65 / 100"
    by (simp add: spec_weighted_score_def example_defs)
  have s6: "spec_weighted_score quiet_results = 0"
    by (simp add: spec_weighted_score_def example_defs)
  have v1: "overall_threat_level xss_results = Some (spec_verdict (255 / 100))"
    using V [OF simulate_xss] by (simp only: s1)
  have v2: "overall_threat_level path_results = Some (spec_verdict (240 / 100))"
    using V [OF simulate_path] by (simp only: s2)
  have v3: "overall_threat_level ddos_results = Some (spec_verdict (176 / 100))"
    using V [OF simulate_ddos] by (simp only: s3)
  have v4: "overall_threat_level malicious_results = Some (spec_verdict (1875 / 1000))"
    using V [OF simulate_malicious] by (simp only: s4)
  have v5: "overall_threat_level hack_results = Some (spec_verdict (65 / 100))"
    using V [OF simulate_hack] by (simp only: s5)
  have v6: "overall_threat_level quiet_results = Some (spec_verdict 0)"
    using V [OF simulate_quiet] by (simp only: s6)
  have c1: "overall_threat_level xss_results = Some ''critical''"
    by (simp add: xss_results_def)
  have c2: "overall_threat_level path_results = Some ''high''"
    by (simp add: path_results_def)
  have c3: "overall_threat_level ddos_results = Some ''high''"
    by (simp add: ddos_results_def)
  have c4: "overall_threat_level malicious_results = Some ''high''"
    by (simp add: malicious_results_def)
  have c5: "overall_threat_level hack_results = Some ''medium''"
    by (simp add: hack_results_def)
  have c6: "overall_threat_level quiet_results = Some ''safe''"
    by (simp add: quiet_results_def)
  show ?thesis
    by (intro conjI)
       (fact simulate_xss simulate_path simulate_ddos simulate_malicious simulate_hack
          simulate_quiet s1 s2 s3 s4 s5 s6 v1 v2 v3 v4 v5 v6 c1 c2 c3 c4 c5 c6)+
qed

text \<open>
  Claim C9. \<open>calculateThreatLevel\<close> reads \<open>.confidence\<close> of an absent vulnerability (or
  network) result, because its guard holds on \<open>undefined\<close>, and throws; so for a request
  with a text whose models list omits \<open>vulnerability_classifier\<close> or \<open>network_analyzer\<close>,
  once the Python server is not available, the simulation throws and the route answers
  with its 500 internal-error branch.
\<close>

theorem C9_absent_classifier_500:
  "(vulnerability_classifier r = None \<or> network_analyzer r = None \<longrightarrow>
      calculateThreatLevel r = Inl TypeError)
   \<and> (req_text req \<noteq> [] \<and> req_models req = Some ms
        \<and> (''vulnerability_classifier'' \<notin> set ms \<or> ''network_analyzer'' \<notin> set ms)
        \<and> call_python python = Inl e \<longrightarrow>
        simulateAnalysis (req_text req) ms = Inl TypeError
        \<and> analyze_POST (Some req) python
            = \<lparr>http_status = 500, payload = ErrorBody ''Internal server error''\<rparr>)"
proof (intro conjI impI)
  assume "vulnerability_classifier r = None \<or> network_analyzer r = None"
  then show "calculateThreatLevel r = Inl TypeError"
    by (rule calculateThreatLevel_absent)
next
  assume a: "req_text req \<noteq> [] \<and> req_models req = Some ms
        \<and> (''vulnerability_classifier'' \<notin> set ms \<or> ''network_analyzer'' \<notin> set ms)
        \<and> call_python python = Inl e"
  then show s: "simulateAnalysis (req_text req) ms = Inl TypeError"
    by (intro simulateAnalysis_absent) simp
  from a s show "analyze_POST (Some req) python
            = \<lparr>http_status = 500, payload = ErrorBody ''Internal server error''\<rparr>"
    by (simp add: analyze_POST_def)
qed

theorem C9_absent_classifier_500_witness:
  "calculateThreatLevel
     \<lparr>text_length = 5, models_used = [''intent_classifier''],
      vulnerability_classifier = None, network_analyzer = None,
      intent_classifier = Some legitimate_output, overall_threat_level = None\<rparr>
     = Inl TypeError
   \<and> call_python (Rejects ''fetch failed'') = Inl FetchError
   \<and> simulateAnalysis ''hello'' [''intent_classifier''] = Inl TypeError
   \<and> analyze_POST (Some \<lparr>req_text = ''hello'', req_models = Some [''intent_classifier'']\<rparr>)
        (Rejects ''fetch failed'')
       = \<lparr>http_status = 500, payload = ErrorBody ''Internal server error''\<rparr>"
proof -
  let ?r = "\<lparr>text_length = 5, models_used = [''intent_classifier''],
      vulnerability_classifier = None, network_analyzer = None,
      intent_classifier = Some legitimate_output, overall_threat_level = None\<rparr>"
  let ?req = "\<lparr>req_text = ''hello'', req_models = Some [''intent_classifier'']\<rparr>"
  note T = C9_absent_classifier_500
    [of ?r ?req "[''intent_classifier'']" "Rejects ''fetch failed''" FetchError]
  have p: "call_python (Rejects ''fetch failed'') = Inl FetchError"
    by (simp add: call_python_def)
  have h: "req_text ?req \<noteq> [] \<and> req_models ?req = Some [''intent_classifier'']
        \<and> (''vulnerability_classifier'' \<notin> set [''intent_classifier'']
            \<or> ''network_analyzer'' \<notin> set [''intent_classifier''])
        \<and> call_python (Rejects ''fetch failed'') = Inl FetchError"
    using p by simp
  have a: "calculateThreatLevel ?r = Inl TypeError"
    by (rule T [THEN conjunct1, THEN mp]) simp
  from T [THEN conjunct2, THEN mp, OF h] a p show ?thesis by simp
qed

section \<open>Properties of the chat route\<close>

lemma get_prop_obj_only:
  "get_prop d k = Inr (Some v) \<Longrightarrow> \<exists>kvs. d = JObj kvs \<and> map_of kvs k = Some v"
  by (cases d) auto

lemma primary_try_succeeds:
  "tier_succeeds primary \<longleftrightarrow> (\<exists>r. primary_try primary = Inr (Some r))"
proof (cases primary)
  case (Rejects m)
  then show ?thesis by (simp add: tier_succeeds_def primary_try_def)
next
  case (Resolves resp)
  show ?thesis
  proof (cases "body resp")
    case None
    with Resolves show ?thesis by (simp add: tier_succeeds_def primary_try_def)
  next
    case (Some d)
    with Resolves show ?thesis
      by (cases d) (auto simp: tier_succeeds_def primary_try_def has_content_def)
  qed
qed

lemma primary_try_response:
  assumes "primary_try primary = Inr (Some r)"
  shows "\<exists>resp d v. primary = Resolves resp \<and> ok resp \<and> body resp = Some d
           \<and> get_prop d ''content'' = Inr (Some v)
           \<and> r = \<lparr>status = 200, content = Passed v, source = backend_source d\<rparr>"
  using assms
  by (auto simp: primary_try_def content_of_def
           split: fetch_outcome.splits if_splits option.splits sum.splits)

lemma fallback_try_succeeds:
  "tier_succeeds fallback \<Longrightarrow> \<exists>r. fallback_try fallback = Inr (Some r)"
  by (auto simp: tier_succeeds_def fallback_try_def has_content_def
           split: fetch_outcome.splits option.splits json.splits)

lemma fallback_try_source:
  "fallback_try fallback = Inr (Some r) \<Longrightarrow> source r = JStr ''fallback_api''"
  by (auto simp: fallback_try_def split: fetch_outcome.splits if_splits option.splits sum.splits)

lemma tryFallbackAPI_cases:
  "(\<exists>r. fallback_try fallback = Inr (Some r) \<and> tryFallbackAPI q fallback = (r, [FallbackCall]))
   \<or> ((\<forall>r. fallback_try fallback \<noteq> Inr (Some r))
       \<and> tryFallbackAPI q fallback = (generateLocalResponse q, [FallbackCall, LocalSynthesis]))"
  by (auto simp: tryFallbackAPI_def split: sum.splits option.splits)

lemma chat_POST_valid:
  assumes "valid_request request m"
  shows "chat_POST request primary fallback =
           (case primary_try primary of
              Inr (Some r) \<Rightarrow> (r, [PrimaryCall])
            | Inr None \<Rightarrow> (fst (tryFallbackAPI m fallback), PrimaryCall # snd (tryFallbackAPI m fallback))
            | Inl e \<Rightarrow> (fst (tryFallbackAPI m fallback), PrimaryCall # snd (tryFallbackAPI m fallback)))"
  using assms
  by (auto simp: valid_request_def chat_POST_def logging_throws_def
           split: option.splits json.splits sum.splits prod.splits)
lemma chat_POST_primary_ok:
  assumes "valid_request request m" and "tier_succeeds primary"
  shows "\<exists>r. primary_try primary = Inr (Some r)
             \<and> chat_POST request primary fallback = (r, [PrimaryCall])"
proof -
  from assms(2) obtain r where "primary_try primary = Inr (Some r)"
    using primary_try_succeeds by blast
  then show ?thesis by (simp add: chat_POST_valid [OF assms(1)])
qed

lemma chat_POST_primary_fails:
  assumes "valid_request request m" and "\<not> tier_succeeds primary"
  shows "chat_POST request primary fallback =
           (fst (tryFallbackAPI m fallback), PrimaryCall # snd (tryFallbackAPI m fallback))"
proof -
  from assms(2) have "\<forall>r. primary_try primary \<noteq> Inr (Some r)"
    using primary_try_succeeds by blast
  then show ?thesis
    by (auto simp: chat_POST_valid [OF assms(1)] split: sum.splits option.splits)
qed

lemma chat_POST_calls:
  assumes "valid_request request m"
  shows "snd (chat_POST request primary fallback) = [PrimaryCall]
         \<or> snd (chat_POST request primary fallback) = [PrimaryCall, FallbackCall]
         \<or> snd (chat_POST request primary fallback) = [PrimaryCall, FallbackCall, LocalSynthesis]"
proof (cases "tier_succeeds primary")
  case True
  from chat_POST_primary_ok [OF assms True, of fallback] show ?thesis by auto
next
  case False
  from tryFallbackAPI_cases [of fallback m] show ?thesis
    by (auto simp: chat_POST_primary_fails [OF assms False])
qed

lemma fallback_try_answers:
  "fallback_answers fallback \<longleftrightarrow> (\<exists>r. fallback_try fallback = Inr (Some r))"
proof (cases fallback)
  case (Rejects m)
  then show ?thesis by (simp add: fallback_answers_def fallback_try_def)
next
  case (Resolves resp)
  show ?thesis
  proof (cases "body resp")
    case None
    with Resolves show ?thesis by (simp add: fallback_answers_def fallback_try_def)
  next
    case (Some d)
    with Resolves show ?thesis
      by (cases d) (auto simp: fallback_answers_def fallback_try_def)
  qed
qed

lemma fallback_try_reply:
  assumes "fallback_try fallback = Inr (Some r)"
  shows "\<exists>resp d c. fallback = Resolves resp \<and> ok resp \<and> body resp = Some d
           \<and> get_prop d ''content'' = Inr c
           \<and> r = \<lparr>status = 200, content = content_of c, source = JStr ''fallback_api''\<rparr>"
  using assms
  by (auto simp: fallback_try_def
           split: fetch_outcome.splits if_splits option.splits sum.splits)

lemma tryFallbackAPI_answers:
  assumes "fallback_answers fallback"
  shows "\<exists>r. fallback_try fallback = Inr (Some r)
             \<and> tryFallbackAPI q fallback = (r, [FallbackCall])"
proof -
  from assms obtain r where "fallback_try fallback = Inr (Some r)"
    using fallback_try_answers by blast
  then show ?thesis by (simp add: tryFallbackAPI_def)
qed

lemma tryFallbackAPI_local:
  assumes "\<not> fallback_answers fallback"
  shows "tryFallbackAPI q fallback = (generateLocalResponse q, [FallbackCall, LocalSynthesis])"
proof -
  from assms have "\<forall>r. fallback_try fallback \<noteq> Inr (Some r)"
    using fallback_try_answers by blast
  then show ?thesis
    by (auto simp: tryFallbackAPI_def split: sum.splits option.splits)
qed

lemma tier_succeeds_answers: "tier_succeeds fallback \<Longrightarrow> fallback_answers fallback"
  by (auto simp: tier_succeeds_def fallback_answers_def has_content_def
           split: fetch_outcome.splits option.splits json.splits)

text \<open>
  Claim C3. For every chat request with a valid message: the primary is called first and
  the route returns on it when it succeeds; when the primary transport fails (network
  error, timeout, a status that is not 2xx, a body that does not parse or has no content
  field), the route calls the fallback endpoint before it synthesizes a local response;
  it returns on the fallback when the fallback answers, and synthesizes the local
  response, which it then returns, exactly when the fallback does not answer (a rejected
  request, a status that is not 2xx, a body that does not parse or is \<open>null\<close>).
\<close>

theorem C3_fallback_order:
  assumes "valid_request request m"
  shows "(tier_succeeds primary \<longrightarrow>
            snd (chat_POST request primary fallback) = [PrimaryCall])
         \<and> (\<not> tier_succeeds primary \<longrightarrow>
              snd (chat_POST request primary fallback) = [PrimaryCall, FallbackCall]
              \<or> snd (chat_POST request primary fallback)
                  = [PrimaryCall, FallbackCall, LocalSynthesis])
         \<and> (\<not> tier_succeeds primary \<and> tier_succeeds fallback \<longrightarrow>
              snd (chat_POST request primary fallback) = [PrimaryCall, FallbackCall])
         \<and> (\<not> tier_succeeds primary \<and> fallback_answers fallback \<longrightarrow>
              snd (chat_POST request primary fallback) = [PrimaryCall, FallbackCall]
              \<and> source (fst (chat_POST request primary fallback)) = JStr ''fallback_api'')
         \<and> (\<not> tier_succeeds primary \<and> \<not> fallback_answers fallback \<longrightarrow>
              chat_POST request primary fallback
                = (generateLocalResponse m, [PrimaryCall, FallbackCall, LocalSynthesis]))"
proof (intro conjI impI)
  assume "tier_succeeds primary"
  from chat_POST_primary_ok [OF assms this, of fallback]
  obtain r where "chat_POST request primary fallback = (r, [PrimaryCall])" by blast
  then show "snd (chat_POST request primary fallback) = [PrimaryCall]" by simp
next
  assume p: "\<not> tier_succeeds primary"
  show "snd (chat_POST request primary fallback) = [PrimaryCall, FallbackCall]
        \<or> snd (chat_POST request primary fallback) = [PrimaryCall, FallbackCall, LocalSynthesis]"
    using tryFallbackAPI_cases [of fallback m]
    by (auto simp: chat_POST_primary_fails [OF assms p])
next
  assume "\<not> tier_succeeds primary \<and> tier_succeeds fallback"
  then have p: "\<not> tier_succeeds primary" and f: "tier_succeeds fallback" by simp_all
  from fallback_try_succeeds [OF f] obtain r where "fallback_try fallback = Inr (Some r)" ..
  then have "tryFallbackAPI m fallback = (r, [FallbackCall])"
    by (simp add: tryFallbackAPI_def)
  then show "snd (chat_POST request primary fallback) = [PrimaryCall, FallbackCall]"
    by (simp add: chat_POST_primary_fails [OF assms p])
next
  assume a: "\<not> tier_succeeds primary \<and> fallback_answers fallback"
  then have p: "\<not> tier_succeeds primary" and f: "fallback_answers fallback" by simp_all
  from tryFallbackAPI_answers [OF f, of m] obtain r
    where r: "fallback_try fallback = Inr (Some r)"
      and t: "tryFallbackAPI m fallback = (r, [FallbackCall])" by blast
  from t show "snd (chat_POST request primary fallback) = [PrimaryCall, FallbackCall]"
    by (simp add: chat_POST_primary_fails [OF assms p])
  from t fallback_try_source [OF r]
  show "source (fst (chat_POST request primary fallback)) = JStr ''fallback_api''"
    by (simp add: chat_POST_primary_fails [OF assms p])
next
  assume a: "\<not> tier_succeeds primary \<and> \<not> fallback_answers fallback"
  then have p: "\<not> tier_succeeds primary" and f: "\<not> fallback_answers fallback" by simp_all
  show "chat_POST request primary fallback
          = (generateLocalResponse m, [PrimaryCall, FallbackCall, LocalSynthesis])"
    by (simp add: chat_POST_primary_fails [OF assms p] tryFallbackAPI_local [OF f])
qed

lemma valid_hello: "valid_request hello_request ''hello''"
  by (simp add: valid_request_def hello_request_def)

lemmas chat_defs = chat_POST_def hello_request_def answer_def logging_throws_def
  primary_try_def tryFallbackAPI_def fallback_try_def ok_def backend_source_def
  content_of_def generateLocalResponse_def

lemmas tier_defs = tier_succeeds_def fallback_answers_def has_content_def ok_def
  answer_def hi_backend_def empty_fallback_def failing_backend_def null_backend_def
  garbled_backend_def

lemma local_hello: "local_template ''hello'' = Greeting"
  by code_simp

theorem C3_fallback_order_witness:
  "valid_request hello_request ''hello''
   \<and> tier_succeeds hi_backend
   \<and> snd (chat_POST hello_request hi_backend hi_backend) = [PrimaryCall]
   \<and> \<not> tier_succeeds (Rejects ''timeout'')
   \<and> \<not> tier_succeeds failing_backend
   \<and> \<not> tier_succeeds empty_fallback
   \<and> \<not> tier_succeeds null_backend
   \<and> \<not> tier_succeeds garbled_backend
   \<and> fallback_answers hi_backend
   \<and> fallback_answers empty_fallback
   \<and> snd (chat_POST hello_request (Rejects ''timeout'') hi_backend)
       = [PrimaryCall, FallbackCall]
   \<and> snd (chat_POST hello_request failing_backend hi_backend)
       = [PrimaryCall, FallbackCall]
   \<and> snd (chat_POST hello_request empty_fallback hi_backend)
       = [PrimaryCall, FallbackCall]
   \<and> snd (chat_POST hello_request null_backend empty_fallback)
       = [PrimaryCall, FallbackCall]
   \<and> snd (chat_POST hello_request garbled_backend empty_fallback)
       = [PrimaryCall, FallbackCall]
   \<and> \<not> fallback_answers (Rejects ''down'')
   \<and> \<not> fallback_answers failing_backend
   \<and> \<not> fallback_answers null_backend
   \<and> \<not> fallback_answers garbled_backend
   \<and> chat_POST hello_request (Rejects ''timeout'') (Rejects ''down'')
       = (\<lparr>status = 200, content = Template Greeting, source = JStr ''local_fallback''\<rparr>,
          [PrimaryCall, FallbackCall, LocalSynthesis])
   \<and> chat_POST hello_request failing_backend failing_backend
       = (\<lparr>status = 200, content = Template Greeting, source = JStr ''local_fallback''\<rparr>,
          [PrimaryCall, FallbackCall, LocalSynthesis])
   \<and> chat_POST hello_request empty_fallback null_backend
       = (\<lparr>status = 200, content = Template Greeting, source = JStr ''local_fallback''\<rparr>,
          [PrimaryCall, FallbackCall, LocalSynthesis])
   \<and> chat_POST hello_request null_backend garbled_backend
       = (\<lparr>status = 200, content = Template Greeting, source = JStr ''local_fallback''\<rparr>,
          [PrimaryCall, FallbackCall, LocalSynthesis])"
proof -
  note T = C3_fallback_order [OF valid_hello]
  have g: "generateLocalResponse ''hello''
             = \<lparr>status = 200, content = Template Greeting, source = JStr ''local_fallback''\<rparr>"
    by (simp add: generateLocalResponse_def local_hello)
  have s: "tier_succeeds hi_backend" by (simp add: tier_defs)
  have p1: "\<not> tier_succeeds (Rejects ''timeout'')" by (simp add: tier_defs)
  have p2: "\<not> tier_succeeds failing_backend" by (simp add: tier_defs)
  have p3: "\<not> tier_succeeds empty_fallback" by (simp add: tier_defs)
  have p4: "\<not> tier_succeeds null_backend" by (simp add: tier_defs)
  have p5: "\<not> tier_succeeds garbled_backend" by (simp add: tier_defs)
  have a1: "fallback_answers hi_backend" by (simp add: tier_defs)
  have a2: "fallback_answers empty_fallback" by (simp add: tier_defs)
  have n1: "\<not> fallback_answers (Rejects ''down'')" by (simp add: tier_defs)
  have n2: "\<not> fallback_answers failing_backend" by (simp add: tier_defs)
  have n3: "\<not> fallback_answers null_backend" by (simp add: tier_defs)
  have n4: "\<not> fallback_answers garbled_backend" by (simp add: tier_defs)
  note A = T [THEN conjunct2, THEN conjunct2, THEN conjunct2, THEN conjunct1, THEN mp,
              THEN conjunct1]
  note L = T [THEN conjunct2, THEN conjunct2, THEN conjunct2, THEN conjunct2, THEN mp]
  have c0: "snd (chat_POST hello_request hi_backend hi_backend) = [PrimaryCall]"
    by (rule T [THEN conjunct1, THEN mp, OF s])
  have c1: "snd (chat_POST hello_request (Rejects ''timeout'') hi_backend)
              = [PrimaryCall, FallbackCall]"
    by (rule A) (simp only: p1 a1 simp_thms)
  have c2: "snd (chat_POST hello_request failing_backend hi_backend)
              = [PrimaryCall, FallbackCall]"
    by (rule A) (simp only: p2 a1 simp_thms)
  have c3: "snd (chat_POST hello_request empty_fallback hi_backend)
              = [PrimaryCall, FallbackCall]"
    by (rule A) (simp only: p3 a1 simp_thms)
  have c4: "snd (chat_POST hello_request null_backend empty_fallback)
              = [PrimaryCall, FallbackCall]"
    by (rule A) (simp only: p4 a2 simp_thms)
  have c5: "snd (chat_POST hello_request garbled_backend empty_fallback)
              = [PrimaryCall, FallbackCall]"
    by (rule A) (simp only: p5 a2 simp_thms)
  have l1: "chat_POST hello_request (Rejects ''timeout'') (Rejects ''down'')
       = (\<lparr>status = 200, content = Template Greeting, source = JStr ''local_fallback''\<rparr>,
          [PrimaryCall, FallbackCall, LocalSynthesis])"
    unfolding g [symmetric] by (rule L) (simp only: p1 n1 simp_thms)
  have l2: "chat_POST hello_request failing_backend failing_backend
       = (\<lparr>status = 200, content = Template Greeting, source = JStr ''local_fallback''\<rparr>,
          [PrimaryCall, FallbackCall, LocalSynthesis])"
    unfolding g [symmetric] by (rule L) (simp only: p2 n2 simp_thms)
  have l3: "chat_POST hello_request empty_fallback null_backend
       = (\<lparr>status = 200, content = Template Greeting, source = JStr ''local_fallback''\<rparr>,
          [PrimaryCall, FallbackCall, LocalSynthesis])"
    unfolding g [symmetric] by (rule L) (simp only: p3 n3 simp_thms)
  have l4: "chat_POST hello_request null_backend garbled_backend
       = (\<lparr>status = 200, content = Template Greeting, source = JStr ''local_fallback''\<rparr>,
          [PrimaryCall, FallbackCall, LocalSynthesis])"
    unfolding g [symmetric] by (rule L) (simp only: p4 n4 simp_thms)
  show ?thesis
    by (intro conjI)
       (fact valid_hello s c0 p1 p2 p3 p4 p5 a1 a2 c1 c2 c3 c4 c5 n1 n2 n3 n4 l1 l2 l3 l4)+
qed

lemma chat_POST_source_primary:
  assumes "valid_request request m" and "tier_succeeds primary"
  shows "primary_reports primary (source (fst (chat_POST request primary fallback)))"
proof -
  from chat_POST_primary_ok [OF assms, of fallback] obtain r
    where r: "primary_try primary = Inr (Some r)"
      and c: "chat_POST request primary fallback = (r, [PrimaryCall])" by blast
  from primary_try_response [OF r] show ?thesis
    by (auto simp: primary_reports_def c)
qed

lemma backend_source_default:
  "backend_source d = JStr ''agentic_agent'' \<or> truthy (backend_source d)"
  by (auto simp: backend_source_def split: sum.splits option.splits json.splits)

text \<open>
  Claim C5, as amended. For every chat request with a valid message: the source is
  \<open>fallback_api\<close> whenever the fallback produced the reply and \<open>local_fallback\<close>
  whenever the reply was synthesized locally; when the primary produced it, the source is
  the backend's own truthy \<open>metadata.source\<close>, and \<open>agentic_agent\<close> when there is none. So
  \<open>agentic_agent\<close> occurs only if the primary succeeded, and \<open>fallback_api\<close> and
  \<open>local_fallback\<close> occur only if that tier produced the reply, unless the primary
  backend itself reported that source.
\<close>

theorem C5_source_tag:
  assumes "valid_request request m"
  shows "(snd (chat_POST request primary fallback) = [PrimaryCall] \<longrightarrow>
            primary_reports primary (source (fst (chat_POST request primary fallback))))
         \<and> (snd (chat_POST request primary fallback) = [PrimaryCall, FallbackCall] \<longrightarrow>
              source (fst (chat_POST request primary fallback)) = JStr ''fallback_api'')
         \<and> (LocalSynthesis \<in> set (snd (chat_POST request primary fallback)) \<longrightarrow>
              source (fst (chat_POST request primary fallback)) = JStr ''local_fallback'')
         \<and> (source (fst (chat_POST request primary fallback)) = JStr ''agentic_agent'' \<longrightarrow>
              snd (chat_POST request primary fallback) = [PrimaryCall])
         \<and> (source (fst (chat_POST request primary fallback)) = JStr ''fallback_api''
              \<and> \<not> primary_reports primary (JStr ''fallback_api'') \<longrightarrow>
              snd (chat_POST request primary fallback) = [PrimaryCall, FallbackCall])
         \<and> (source (fst (chat_POST request primary fallback)) = JStr ''local_fallback''
              \<and> \<not> primary_reports primary (JStr ''local_fallback'') \<longrightarrow>
              LocalSynthesis \<in> set (snd (chat_POST request primary fallback)))"
proof (cases "tier_succeeds primary")
  case True
  from chat_POST_primary_ok [OF assms True, of fallback] obtain r
    where c: "chat_POST request primary fallback = (r, [PrimaryCall])" by blast
  from chat_POST_source_primary [OF assms True, of fallback]
  have p: "primary_reports primary (source r)" by (simp add: c)
  show ?thesis using p by (auto simp: c)
next
  case False
  note c = chat_POST_primary_fails [OF assms False]
  from tryFallbackAPI_cases [of fallback m] show ?thesis
  proof (elim disjE exE conjE)
    fix r assume r: "fallback_try fallback = Inr (Some r)"
      and t: "tryFallbackAPI m fallback = (r, [FallbackCall])"
    from fallback_try_source [OF r] show ?thesis by (simp add: c t)
  next
    assume t: "tryFallbackAPI m fallback = (generateLocalResponse m, [FallbackCall, LocalSynthesis])"
    show ?thesis by (simp add: c t generateLocalResponse_def)
  qed
qed

text \<open>
  Claim C5 fails as stated: a primary backend that answers with
  \<open>metadata.source = "local_fallback"\<close> gets that tag passed on, although the reply came from
  the primary and nothing was synthesized locally.
\<close>

theorem C5_source_tag_counterexample:
  "source (fst (chat_POST hello_request spoofing_backend (Rejects ''down''))) = JStr ''local_fallback''
   \<and> snd (chat_POST hello_request spoofing_backend (Rejects ''down'')) = [PrimaryCall]
   \<and> LocalSynthesis \<notin> set (snd (chat_POST hello_request spoofing_backend (Rejects ''down'')))"
  by (simp add: chat_POST_def hello_request_def spoofing_backend_def answer_def
        logging_throws_def primary_try_def ok_def backend_source_def)

section \<open>Source tags, missing content and the block gate\<close>

theorem C5_source_tag_witness:
  "valid_request hello_request ''hello''
   \<and> snd (chat_POST hello_request hi_backend (Rejects ''down'')) = [PrimaryCall]
   \<and> primary_reports hi_backend (JStr ''agentic_agent'')
   \<and> source (fst (chat_POST hello_request hi_backend (Rejects ''down''))) = JStr ''agentic_agent''
   \<and> snd (chat_POST hello_request (Rejects ''timeout'') hi_backend) = [PrimaryCall, FallbackCall]
   \<and> \<not> primary_reports (Rejects ''timeout'') (JStr ''fallback_api'')
   \<and> source (fst (chat_POST hello_request (Rejects ''timeout'') hi_backend)) = JStr ''fallback_api''
   \<and> LocalSynthesis \<in> set (snd (chat_POST hello_request (Rejects ''timeout'') (Rejects ''down'')))
   \<and> \<not> primary_reports (Rejects ''timeout'') (JStr ''local_fallback'')
   \<and> source (fst (chat_POST hello_request (Rejects ''timeout'') (Rejects ''down'')))
       = JStr ''local_fallback''"
proof -
  note T = C5_source_tag [OF valid_hello]
  have t1: "snd (chat_POST hello_request hi_backend (Rejects ''down'')) = [PrimaryCall]"
    by (simp add: chat_defs hi_backend_def)
  have s1: "source (fst (chat_POST hello_request hi_backend (Rejects ''down''))) = JStr ''agentic_agent''"
    by (simp add: chat_defs hi_backend_def)
  have p1: "primary_reports hi_backend (JStr ''agentic_agent'')"
    using T [of hi_backend "Rejects ''down''", THEN conjunct1, THEN mp, OF t1]
    by (simp only: s1)
  have t2: "snd (chat_POST hello_request (Rejects ''timeout'') hi_backend) = [PrimaryCall, FallbackCall]"
    by (simp add: chat_defs hi_backend_def)
  have s2: "source (fst (chat_POST hello_request (Rejects ''timeout'') hi_backend)) = JStr ''fallback_api''"
    by (rule T [THEN conjunct2, THEN conjunct1, THEN mp, OF t2])
  have t3: "LocalSynthesis \<in> set (snd (chat_POST hello_request (Rejects ''timeout'') (Rejects ''down'')))"
    by (simp add: chat_defs)
  have s3: "source (fst (chat_POST hello_request (Rejects ''timeout'') (Rejects ''down'')))
       = JStr ''local_fallback''"
    by (rule T [THEN conjunct2, THEN conjunct2, THEN conjunct1, THEN mp, OF t3])
  have n2: "\<not> primary_reports (Rejects ''timeout'') (JStr ''fallback_api'')"
    by (simp add: primary_reports_def)
  have n3: "\<not> primary_reports (Rejects ''timeout'') (JStr ''local_fallback'')"
    by (simp add: primary_reports_def)
  show ?thesis by (intro conjI) (fact valid_hello t1 p1 s1 t2 n2 s2 t3 n3 s3)+
qed


text \<open>
  Whenever the route answers with a text of its own (validation, error handler, local
  synthesis) the content is a string; only a content passed on from a tier may be none.
\<close>

lemma chat_POST_own_text:
  "displayable (content (fst (chat_POST request primary fallback)))
   \<or> snd (chat_POST request primary fallback) = [PrimaryCall]
   \<or> snd (chat_POST request primary fallback) = [PrimaryCall, FallbackCall]"
  by (auto simp: chat_POST_def tryFallbackAPI_def generateLocalResponse_def displayable_def
        error_handler_response_def validation_response_def
        split: option.splits sum.splits json.splits prod.splits)

text \<open>
  Claim C1 fails as stated: the chat route does not read \<open>systemState\<close>. In a server that
  an admin has blocked, a valid chat request still reaches the primary backend and its
  reply is returned.
\<close>

theorem C1_block_gate_counterexample:
  "blocked (systemState blocked_server)
   \<and> chat_route blocked_server hello_request hi_backend (Rejects ''down'')
       = ((\<lparr>status = 200, content = Passed (JStr ''hi''), source = JStr ''agentic_agent''\<rparr>,
           [PrimaryCall]), blocked_server)"
  by (simp add: chat_route_def chat_defs hi_backend_def blocked_server_def block_system_def
        initial_server_def Let_def)

lemma foldl_handleThreatDetected_alerts:
  "securityAlerts (foldl handleThreatDetected st alerts) = rev alerts @ securityAlerts st"
  by (induction alerts arbitrary: st) (auto simp: handleThreatDetected_def Let_def)

lemma foldl_handleThreatDetected_blocked:
  "isSystemBlocked (foldl handleThreatDetected st alerts)
     = (isSystemBlocked st \<or> list_ex critical alerts)"
  by (induction alerts arbitrary: st) (auto simp: handleThreatDetected_def Let_def)

lemma foldl_handleThreatDetected_threatLevel:
  "threatLevel (foldl handleThreatDetected st alerts)
     = (if list_ex critical alerts then Danger else threatLevel st)"
  by (induction alerts arbitrary: st) (auto simp: handleThreatDetected_def Let_def)

lemma foldl_handleThreatDetected_messages:
  "messages (foldl handleThreatDetected st alerts)
     = messages st @ map SecurityMessage (filter critical alerts)"
  by (induction alerts arbitrary: st) (auto simp: handleThreatDetected_def Let_def)

lemma foldl_handleThreatDetected_input:
  "input (foldl handleThreatDetected st alerts) = input st
   \<and> isLoading (foldl handleThreatDetected st alerts) = isLoading st"
  by (induction alerts arbitrary: st) (auto simp: handleThreatDetected_def Let_def)

lemmas foldl_handleThreatDetected = foldl_handleThreatDetected_alerts
  foldl_handleThreatDetected_blocked foldl_handleThreatDetected_threatLevel
  foldl_handleThreatDetected_messages foldl_handleThreatDetected_input

lemma handleSendMessage_state:
  "snd (snd (handleSendMessage st received chat))
     = foldl handleThreatDetected st (analyzeMessageSecurity received)"
  by (simp add: handleSendMessage_def Let_def split: option.splits)

lemma handleSendMessage_critical:
  assumes "list_ex critical (analyzeMessageSecurity received)"
  shows "fst (handleSendMessage st received chat)
           = (Template MessageBlocked, JStr ''security_block'')
         \<and> fst (snd (handleSendMessage st received chat)) = [AnalyzeRequest]"
  using assms by (simp add: handleSendMessage_def Let_def)

lemma handleSendMessage_clear:
  assumes "\<not> list_ex critical (analyzeMessageSecurity received)" and "\<not> isSystemBlocked st"
  shows "fst (snd (handleSendMessage st received chat)) = [AnalyzeRequest, ChatRequest]"
  using assms by (simp add: handleSendMessage_def Let_def split: option.splits)

lemma handleSendMessage_blocked:
  assumes "isSystemBlocked st"
  shows "fst (snd (handleSendMessage st received chat)) = [AnalyzeRequest]"
  using assms by (simp add: handleSendMessage_def Let_def)

lemma handleSend_gate:
  assumes "trim (input st) = [] \<or> isLoading st \<or> isSystemBlocked st"
  shows "handleSend st received chat = ([], st)"
  using assms by (auto simp: handleSend_def)

lemma handleSend_sends:
  assumes "\<not> isSystemBlocked st" and "\<not> isLoading st" and "trim (input st) \<noteq> []"
  shows "fst (handleSend st received chat)
           = fst (snd (handleSendMessage (sending st) received chat))"
    and "snd (handleSend st received chat)
           = (foldl handleThreatDetected (sending st) (analyzeMessageSecurity received))
               \<lparr>messages :=
                  messages (foldl handleThreatDetected (sending st)
                              (analyzeMessageSecurity received))
                  @ [AssistantMessage (fst (fst (handleSendMessage (sending st) received chat)))
                       (snd (fst (handleSendMessage (sending st) received chat)))],
                isLoading := False\<rparr>"
  using assms handleSendMessage_state [of "sending st" received chat]
  by (auto simp: handleSend_def sending_def Let_def split: prod.splits)

text \<open>Only a send in progress reaches \<open>handleSendMessage\<close>, and never with the block flag.\<close>

lemma handleSend_calls_unblocked:
  assumes "fst (handleSend st received chat) \<noteq> []"
  shows "\<not> isSystemBlocked (sending st)"
  using assms by (auto simp: handleSend_def sending_def)

text \<open>
  Claim C1, as amended. The block gate is in the chat page, in \<open>handleSend\<close>, the only
  caller of \<open>handleSendMessage\<close>: while the flag \<open>isSystemBlocked\<close> is set a send makes no
  request at all (no security analysis, no \<open>POST /api/chat\<close>), adds no message, not even
  a fixed one, and leaves the page as it is. A send from a page that is not blocked always
  asks for the security analysis first; when that raises a critical alert, no chat request
  is made, and the conversation gets the user's message, one security message for each
  critical alert and the fixed reply of source \<open>security_block\<close>;
  otherwise the chat request is made. The route itself does not consult
  \<open>SystemState.blocked\<close>: for every valid message it calls the primary backend, and it
  leaves the admin state as it is.
\<close>

theorem C1_block_gate:
  "(isSystemBlocked st \<longrightarrow> handleSend st received chat = ([], st))
   \<and> (\<not> isSystemBlocked st \<and> \<not> isLoading st \<and> trim (input st) \<noteq> []
        \<and> list_ex critical (analyzeMessageSecurity received) \<longrightarrow>
        fst (handleSend st received chat) = [AnalyzeRequest]
        \<and> messages (snd (handleSend st received chat))
            = messages st @ [UserMessage (input st)]
              @ map SecurityMessage (filter critical (analyzeMessageSecurity received))
              @ [AssistantMessage (Template MessageBlocked) (JStr ''security_block'')])
   \<and> (\<not> isSystemBlocked st \<and> \<not> isLoading st \<and> trim (input st) \<noteq> []
        \<and> \<not> list_ex critical (analyzeMessageSecurity received) \<longrightarrow>
        fst (handleSend st received chat) = [AnalyzeRequest, ChatRequest])
   \<and> (valid_request request m \<longrightarrow>
        hd (snd (fst (chat_route srv request primary fallback))) = PrimaryCall
        \<and> snd (chat_route srv request primary fallback) = srv)"
proof (intro conjI impI)
  assume "isSystemBlocked st"
  then show "handleSend st received chat = ([], st)" by (simp add: handleSend_gate)
next
  assume a: "\<not> isSystemBlocked st \<and> \<not> isLoading st \<and> trim (input st) \<noteq> []
        \<and> list_ex critical (analyzeMessageSecurity received)"
  then have b: "\<not> isSystemBlocked st" and l: "\<not> isLoading st" and i: "trim (input st) \<noteq> []"
    and c: "list_ex critical (analyzeMessageSecurity received)" by simp_all
  note S = handleSend_sends [OF b l i, of received chat]
  note M = handleSendMessage_critical [OF c, of "sending st" chat]
  show "fst (handleSend st received chat) = [AnalyzeRequest]"
    by (simp add: S(1) M)
  show "messages (snd (handleSend st received chat))
            = messages st @ [UserMessage (input st)]
              @ map SecurityMessage (filter critical (analyzeMessageSecurity received))
              @ [AssistantMessage (Template MessageBlocked) (JStr ''security_block'')]"
    by (simp add: S(2) M foldl_handleThreatDetected_messages) (simp add: sending_def)
next
  assume a: "\<not> isSystemBlocked st \<and> \<not> isLoading st \<and> trim (input st) \<noteq> []
        \<and> \<not> list_ex critical (analyzeMessageSecurity received)"
  then have b: "\<not> isSystemBlocked st" and l: "\<not> isLoading st" and i: "trim (input st) \<noteq> []"
    and c: "\<not> list_ex critical (analyzeMessageSecurity received)" by simp_all
  from b have b': "\<not> isSystemBlocked (sending st)" by (simp add: sending_def)
  show "fst (handleSend st received chat) = [AnalyzeRequest, ChatRequest]"
    by (simp add: handleSend_sends(1) [OF b l i] handleSendMessage_clear [OF c b'])
next
  assume v: "valid_request request m"
  from chat_POST_calls [OF v, of primary fallback]
  show "hd (snd (fst (chat_route srv request primary fallback))) = PrimaryCall"
    by (auto simp: chat_route_def)
  show "snd (chat_route srv request primary fallback) = srv"
    by (simp add: chat_route_def)
qed

lemma trim_hello: "trim ''hello'' \<noteq> []"
  by code_simp

lemma trim_xss_text: "trim xss_text \<noteq> []"
  by code_simp

lemma analyzeMessageSecurity_xss:
  "analyzeMessageSecurity (Some xss_results)
     = [\<lparr>alert_type = Vulnerability, severity = Critical\<rparr>]"
  by (simp add: analyzeMessageSecurity_def xss_results_def normal_output_def
        legitimate_output_def)

lemma analyzeMessageSecurity_quiet: "analyzeMessageSecurity (Some quiet_results) = []"
  by (simp add: analyzeMessageSecurity_def quiet_results_def safe_output_def
        normal_output_def legitimate_output_def)

lemma blocked_page_reached:
  "handleSend (fresh_page xss_text) (Some xss_results) chat = ([AnalyzeRequest], blocked_page)"
  by (simp add: handleSend_def fresh_page_def trim_xss_text handleSendMessage_def
        analyzeMessageSecurity_xss handleThreatDetected_def Let_def blocked_page_def)

theorem C1_block_gate_witness:
  "handleSend (fresh_page xss_text) (Some xss_results) (Some hi_reply)
     = ([AnalyzeRequest], blocked_page)
   \<and> isSystemBlocked blocked_page
   \<and> handleSend blocked_page (Some quiet_results) (Some hi_reply) = ([], blocked_page)
   \<and> isSystemBlocked (blocked_page\<lparr>input := ''hello''\<rparr>)
   \<and> trim (input (blocked_page\<lparr>input := ''hello''\<rparr>)) \<noteq> []
   \<and> \<not> isLoading (blocked_page\<lparr>input := ''hello''\<rparr>)
   \<and> handleSend (blocked_page\<lparr>input := ''hello''\<rparr>) (Some quiet_results) (Some hi_reply)
       = ([], blocked_page\<lparr>input := ''hello''\<rparr>)
   \<and> \<not> isSystemBlocked (fresh_page xss_text)
   \<and> list_ex critical (analyzeMessageSecurity (Some xss_results))
   \<and> fst (handleSend (fresh_page xss_text) (Some xss_results) (Some hi_reply))
       = [AnalyzeRequest]
   \<and> messages (snd (handleSend (fresh_page xss_text) (Some xss_results) (Some hi_reply)))
       = [UserMessage xss_text,
          SecurityMessage \<lparr>alert_type = Vulnerability, severity = Critical\<rparr>,
          AssistantMessage (Template MessageBlocked) (JStr ''security_block'')]
   \<and> \<not> isSystemBlocked (fresh_page ''hello'')
   \<and> \<not> list_ex critical (analyzeMessageSecurity (Some quiet_results))
   \<and> fst (handleSend (fresh_page ''hello'') (Some quiet_results) (Some hi_reply))
       = [AnalyzeRequest, ChatRequest]
   \<and> valid_request hello_request ''hello''
   \<and> hd (snd (fst (chat_route blocked_server hello_request hi_backend (Rejects ''down''))))
       = PrimaryCall
   \<and> snd (chat_route blocked_server hello_request hi_backend (Rejects ''down'')) = blocked_server"
proof -
  have b: "isSystemBlocked blocked_page" by (simp add: blocked_page_def)
  have g: "handleSend blocked_page (Some quiet_results) (Some hi_reply) = ([], blocked_page)"
    by (rule C1_block_gate [THEN conjunct1, THEN mp, OF b])
  have b': "isSystemBlocked (blocked_page\<lparr>input := ''hello''\<rparr>)"
    by (simp add: blocked_page_def)
  have bi: "trim (input (blocked_page\<lparr>input := ''hello''\<rparr>)) \<noteq> []"
    by (simp add: trim_hello)
  have bl: "\<not> isLoading (blocked_page\<lparr>input := ''hello''\<rparr>)"
    by (simp add: blocked_page_def)
  have g': "handleSend (blocked_page\<lparr>input := ''hello''\<rparr>) (Some quiet_results) (Some hi_reply)
       = ([], blocked_page\<lparr>input := ''hello''\<rparr>)"
    by (rule C1_block_gate [THEN conjunct1, THEN mp, OF b'])
  have x: "\<not> isSystemBlocked (fresh_page xss_text) \<and> \<not> isLoading (fresh_page xss_text)
           \<and> trim (input (fresh_page xss_text)) \<noteq> []
           \<and> list_ex critical (analyzeMessageSecurity (Some xss_results))"
    by (simp add: fresh_page_def trim_xss_text analyzeMessageSecurity_xss)
  note X = C1_block_gate [THEN conjunct2, THEN conjunct1, THEN mp, OF x, of "Some hi_reply"]
  have xm: "messages (snd (handleSend (fresh_page xss_text) (Some xss_results) (Some hi_reply)))
       = [UserMessage xss_text,
          SecurityMessage \<lparr>alert_type = Vulnerability, severity = Critical\<rparr>,
          AssistantMessage (Template MessageBlocked) (JStr ''security_block'')]"
    unfolding X [THEN conjunct2]
    by (simp add: fresh_page_def analyzeMessageSecurity_xss)
  have q: "\<not> isSystemBlocked (fresh_page ''hello'') \<and> \<not> isLoading (fresh_page ''hello'')
           \<and> trim (input (fresh_page ''hello'')) \<noteq> []
           \<and> \<not> list_ex critical (analyzeMessageSecurity (Some quiet_results))"
    by (simp add: fresh_page_def trim_hello analyzeMessageSecurity_quiet)
  note Q = C1_block_gate [THEN conjunct2, THEN conjunct2, THEN conjunct1, THEN mp, OF q,
      of "Some hi_reply"]
  note R = C1_block_gate [THEN conjunct2, THEN conjunct2, THEN conjunct2, THEN mp,
      OF valid_hello, of blocked_server hi_backend "Rejects ''down''"]
  show ?thesis
    by (intro conjI)
       (fact blocked_page_reached b g b' bi bl g' x [THEN conjunct1]
          x [THEN conjunct2, THEN conjunct2, THEN conjunct2]
          X [THEN conjunct1] xm q [THEN conjunct1]
          q [THEN conjunct2, THEN conjunct2, THEN conjunct2] Q valid_hello
          R [THEN conjunct1] R [THEN conjunct2])+
qed

section \<open>Properties of the local synthesizers\<close>

lemma local_template_first_match:
  "local_template query =
     (case first_match (toLowerCase query) route_rules of Some t \<Rightarrow> t | None \<Rightarrow> Generic query)"
  by (simp add: local_template_def route_rules_def pricing_keywords_def feature_keywords_def
        greeting_keywords_def Let_def)

lemma generateLocalChatResponse_first_match:
  "generateLocalChatResponse query =
     (case first_match (toLowerCase query) lib_rules of Some t \<Rightarrow> t | None \<Rightarrow> LibGeneric)"
  by (simp add: generateLocalChatResponse_def lib_rules_def Let_def)

text \<open>
  Claim C6, as amended. \<open>generateLocalResponse\<close> of the chat route evaluates its rules in
  the order pricing, features, greeting, TeamSquare description, generic fallback, and
  \<open>generateLocalChatResponse\<close> of the API helper in the order pricing, features, greeting,
  generic fallback; in both the first matching rule wins, so a text with both a pricing
  keyword and a feature keyword gets the pricing template.
\<close>

theorem C6_keyword_order:
  "content (generateLocalResponse query)
     = Template (case first_match (toLowerCase query) route_rules of
                   Some t \<Rightarrow> t | None \<Rightarrow> Generic query)
   \<and> generateLocalChatResponse query
       = (case first_match (toLowerCase query) lib_rules of Some t \<Rightarrow> t | None \<Rightarrow> LibGeneric)
   \<and> (list_ex (str_includes (toLowerCase query)) pricing_keywords
        \<and> list_ex (str_includes (toLowerCase query)) feature_keywords \<longrightarrow>
        content (generateLocalResponse query) = Template Pricing)
   \<and> (list_ex (str_includes (toLowerCase query)) [''prix'', ''tarif'']
        \<and> list_ex (str_includes (toLowerCase query)) [kw_fonctionnalite, ''feature''] \<longrightarrow>
        generateLocalChatResponse query = LibPricing)"
  by (simp add: generateLocalResponse_def local_template_first_match
        generateLocalChatResponse_first_match route_rules_def lib_rules_def)

lemma lower_tarif_feature: "toLowerCase ''Tarif FEATURE'' = ''tarif feature''"
  by code_simp

theorem C6_keyword_order_witness:
  "list_ex (str_includes (toLowerCase ''Tarif FEATURE'')) pricing_keywords
   \<and> list_ex (str_includes (toLowerCase ''Tarif FEATURE'')) feature_keywords
   \<and> content (generateLocalResponse ''Tarif FEATURE'') = Template Pricing
   \<and> list_ex (str_includes (toLowerCase ''Tarif FEATURE'')) [''prix'', ''tarif'']
   \<and> list_ex (str_includes (toLowerCase ''Tarif FEATURE'')) [kw_fonctionnalite, ''feature'']
   \<and> generateLocalChatResponse ''Tarif FEATURE'' = LibPricing"
proof -
  have p: "list_ex (str_includes (toLowerCase ''Tarif FEATURE'')) pricing_keywords"
    unfolding lower_tarif_feature by (simp add: pricing_keywords_def)
  have f: "list_ex (str_includes (toLowerCase ''Tarif FEATURE'')) feature_keywords"
    unfolding lower_tarif_feature by (simp add: feature_keywords_def)
  have p': "list_ex (str_includes (toLowerCase ''Tarif FEATURE'')) [''prix'', ''tarif'']"
    unfolding lower_tarif_feature by simp
  have f': "list_ex (str_includes (toLowerCase ''Tarif FEATURE'')) [kw_fonctionnalite, ''feature'']"
    unfolding lower_tarif_feature by simp
  note T = C6_keyword_order [of "''Tarif FEATURE''"]
  have a: "content (generateLocalResponse ''Tarif FEATURE'') = Template Pricing"
    by (rule T [THEN conjunct2, THEN conjunct2, THEN conjunct1, THEN mp]) (simp only: p f)
  have b: "generateLocalChatResponse ''Tarif FEATURE'' = LibPricing"
    by (rule T [THEN conjunct2, THEN conjunct2, THEN conjunct2, THEN mp]) (simp only: p' f')
  show ?thesis by (intro conjI) (fact p f a p' f' b)+
qed

text \<open>
  Claim C6 fails as stated for the chat route: after the greeting rule comes a fifth rule,
  not the generic fallback. The text \<open>teamsquare\<close> has no pricing, feature or greeting
  keyword and gets the TeamSquare description.
\<close>

theorem C6_keyword_order_counterexample:
  "\<not> list_ex (str_includes (toLowerCase ''teamsquare'')) pricing_keywords
   \<and> \<not> list_ex (str_includes (toLowerCase ''teamsquare'')) feature_keywords
   \<and> \<not> list_ex (str_includes (toLowerCase ''teamsquare'')) greeting_keywords
   \<and> content (generateLocalResponse ''teamsquare'') = Template About
   \<and> content (generateLocalResponse ''teamsquare'') \<noteq> Template (Generic ''teamsquare'')"
proof -
  have l: "toLowerCase ''teamsquare'' = ''teamsquare''" by code_simp
  show ?thesis
    unfolding generateLocalResponse_def local_template_first_match l
    by (simp add: route_rules_def pricing_keywords_def feature_keywords_def
          greeting_keywords_def kw_cout_def kw_fonctionnalite_def)
qed

section \<open>Properties of the API helper\<close>

lemma after_events_pair [simp]: "after_events evs (r, t) = (r, evs @ t)"
  by (simp add: after_events_def)














lemma attempts_made_append [simp]:
  "attempts_made (xs @ ys) = attempts_made xs + attempts_made ys"
  by (simp add: attempts_made_def)

lemma attempts_made_Pause [simp]: "attempts_made (Pause d # evs) = attempts_made evs"
  by (simp add: attempts_made_def)









section \<open>Properties of the admin route\<close>

text \<open>
  When the backend request resolves, whatever its status, \<open>unblock_system\<close> writes the
  state: the system is unblocked, safe and without active threats, every session is
  unblocked, and the score of a session that was blocked is lowered by 0.3, not below 0.1.
  The scores are exact here; the code subtracts doubles, so that its \<open>0.9 - 0.3\<close> is
  \<open>0.6000000000000001\<close>.
\<close>

lemma unblock_system_resolved:
  "unblock_system (Resolves response) srv =
     (AdminSuccess \<lparr>blocked = False, threat_level = Safe, active_threats = []\<rparr>,
      \<lparr>systemState = \<lparr>blocked = False, threat_level = Safe, active_threats = []\<rparr>,
       mockAlerts = mockAlerts srv,
       userActivities = map unblock_user (userActivities srv)\<rparr>)"
  by (simp add: unblock_system_def Let_def)

lemma unblock_system_users:
  assumes "snd (unblock_system (Resolves response) srv) = srv'"
  shows "length (userActivities srv') = length (userActivities srv)
         \<and> (\<forall>i < length (userActivities srv).
               \<not> user_blocked (userActivities srv' ! i)
               \<and> session_id (userActivities srv' ! i) = session_id (userActivities srv ! i)
               \<and> threat_score (userActivities srv' ! i) =
                   (if user_blocked (userActivities srv ! i)
                    then max (1 / 10) (threat_score (userActivities srv ! i) - 3 / 10)
                    else threat_score (userActivities srv ! i)))"
  using assms by (auto simp: unblock_system_resolved unblock_user_def)

text \<open>
  Claim C10 at a failing input. The action awaits a request to the backend before it
  writes anything, inside the \<open>try\<close> block whose \<open>catch\<close> answers 500; the comment above
  that request says the backend is called if available. With the backend not reachable
  the state stays as it was: the system and its sessions remain blocked.
\<close>

theorem C10_unblock_backend_down:
  "blocked (systemState blocked_server)
   \<and> unblock_system (Rejects ''fetch failed'') blocked_server = (AdminError 500, blocked_server)
   \<and> blocked (systemState (snd (unblock_system (Rejects ''fetch failed'') blocked_server)))
   \<and> map user_blocked (userActivities (snd (unblock_system (Rejects ''fetch failed'') blocked_server)))
       = [True, True, False]"
  by (simp add: unblock_system_def blocked_server_def block_system_def answer_def
        initial_server_def Let_def)

section \<open>Alerts raised from an analysis\<close>

lemma simulateAnalysis_default:
  assumes "simulateAnalysis txt default_models = Inr results"
  shows "vulnerability_classifier results = Some (run_vulnerability_classifier txt)
         \<and> network_analyzer results = Some (run_network_analyzer txt)
         \<and> intent_classifier results = Some (run_intent_classifier txt)"
  using assms
  by (auto simp: simulateAnalysis_def default_models_def Let_def split: sum.splits)

lemma run_intent_classifier_cases:
  "run_intent_classifier txt = \<lparr>kind = ''Malicious'', confidence = 75 / 100\<rparr>
   \<or> run_intent_classifier txt = \<lparr>kind = ''Suspicious'', confidence = 65 / 100\<rparr>
   \<or> run_intent_classifier txt = \<lparr>kind = ''Legitimate'', confidence = 80 / 100\<rparr>"
  by (simp add: run_intent_classifier_def Let_def)

lemma no_alert_low_score:
  assumes "simulateAnalysis txt default_models = Inr results"
    and "analyzeMessageSecurity (Some results) = []"
  shows "spec_weighted_score results \<le> 65 / 100"
proof -
  note d = simulateAnalysis_default [OF assms(1)]
  from assms(2) d have v: "kind (run_vulnerability_classifier txt) = ''SAFE''"
    and n: "kind (run_network_analyzer txt) = ''NORMAL''"
    and i: "kind (run_intent_classifier txt) \<noteq> ''Malicious''"
    by (auto simp: analyzeMessageSecurity_def split: if_splits)
  from run_intent_classifier_cases [of "txt"] i show ?thesis
    by (auto simp: spec_weighted_score_def d v n)
qed

lemma alert_on_high_verdict:
  assumes "simulateAnalysis txt default_models = Inr results"
    and "overall_threat_level results = Some ''critical''
         \<or> overall_threat_level results = Some ''high''"
  shows "analyzeMessageSecurity (Some results) \<noteq> []"
proof
  assume "analyzeMessageSecurity (Some results) = []"
  from no_alert_low_score [OF assms(1) this]
  have "spec_verdict (spec_weighted_score results) \<noteq> ''critical''
        \<and> spec_verdict (spec_weighted_score results) \<noteq> ''high''"
    by (simp add: spec_verdict_def)
  with simulateAnalysis_verdict [OF assms(1)] assms(2) show False by simp
qed

lemma handleSendMessage_alerts:
  "securityAlerts (snd (snd (handleSendMessage st received chat)))
     = rev (analyzeMessageSecurity received) @ securityAlerts st"
  by (simp add: handleSendMessage_state foldl_handleThreatDetected_alerts)

lemma handleSendMessage_flag:
  "isSystemBlocked (snd (snd (handleSendMessage st received chat)))
     = (isSystemBlocked st \<or> list_ex critical (analyzeMessageSecurity received))
   \<and> threatLevel (snd (snd (handleSendMessage st received chat)))
       = (if list_ex critical (analyzeMessageSecurity received) then Danger
          else threatLevel st)"
  by (simp add: handleSendMessage_state foldl_handleThreatDetected_blocked
        foldl_handleThreatDetected_threatLevel)

lemma handleSend_alerts:
  assumes "\<not> isSystemBlocked st" and "\<not> isLoading st" and "trim (input st) \<noteq> []"
  shows "securityAlerts (snd (handleSend st received chat))
           = rev (analyzeMessageSecurity received) @ securityAlerts st"
    and "isSystemBlocked (snd (handleSend st received chat))
           = list_ex critical (analyzeMessageSecurity received)"
    and "threatLevel (snd (handleSend st received chat))
           = (if list_ex critical (analyzeMessageSecurity received) then Danger
              else threatLevel st)"
  using assms(1)
  by (simp_all add: handleSend_sends(2) [OF assms] foldl_handleThreatDetected sending_def)

lemma alert_types_parts:
  "map alert_type (analyzeMessageSecurity (Some analysis))
     = (if \<exists>v. vulnerability_classifier analysis = Some v \<and> kind v \<noteq> ''SAFE''
        then [Vulnerability] else [])
       @ (if \<exists>n. network_analyzer analysis = Some n \<and> kind n \<noteq> ''NORMAL''
          then [Network] else [])
       @ (if \<exists>i. intent_classifier analysis = Some i \<and> kind i = ''Malicious''
          then [Intent] else [])"
  by (simp add: analyzeMessageSecurity_def split: option.splits)

lemma analyzeMessageSecurity_types:
  "((\<exists>a \<in> set (analyzeMessageSecurity (Some analysis)). alert_type a = Vulnerability)
      \<longleftrightarrow> (\<exists>v. vulnerability_classifier analysis = Some v \<and> kind v \<noteq> ''SAFE''))
   \<and> ((\<exists>a \<in> set (analyzeMessageSecurity (Some analysis)). alert_type a = Network)
      \<longleftrightarrow> (\<exists>n. network_analyzer analysis = Some n \<and> kind n \<noteq> ''NORMAL''))
   \<and> ((\<exists>a \<in> set (analyzeMessageSecurity (Some analysis)). alert_type a = Intent)
      \<longleftrightarrow> (\<exists>i. intent_classifier analysis = Some i \<and> kind i = ''Malicious''))
   \<and> distinct (map alert_type (analyzeMessageSecurity (Some analysis)))"
proof -
  define A where "A \<longleftrightarrow> (\<exists>v. vulnerability_classifier analysis = Some v \<and> kind v \<noteq> ''SAFE'')"
  define B where "B \<longleftrightarrow> (\<exists>n. network_analyzer analysis = Some n \<and> kind n \<noteq> ''NORMAL'')"
  define C where "C \<longleftrightarrow> (\<exists>i. intent_classifier analysis = Some i \<and> kind i = ''Malicious'')"
  have m: "(\<exists>a \<in> set xs. alert_type a = t) \<longleftrightarrow> t \<in> set (map alert_type xs)"
    for xs :: "SecurityAlert list" and t
    by auto
  have p: "map alert_type (analyzeMessageSecurity (Some analysis))
             = (if A then [Vulnerability] else []) @ (if B then [Network] else [])
               @ (if C then [Intent] else [])"
    unfolding A_def B_def C_def by (rule alert_types_parts)
  have "(Vulnerability \<in> set (map alert_type (analyzeMessageSecurity (Some analysis))) \<longleftrightarrow> A)
        \<and> (Network \<in> set (map alert_type (analyzeMessageSecurity (Some analysis))) \<longleftrightarrow> B)
        \<and> (Intent \<in> set (map alert_type (analyzeMessageSecurity (Some analysis))) \<longleftrightarrow> C)
        \<and> distinct (map alert_type (analyzeMessageSecurity (Some analysis)))"
    unfolding p by (cases A; cases B; cases C; simp)
  then show ?thesis
    unfolding m A_def B_def C_def .
qed

lemma simulated_critical_alert:
  assumes "simulateAnalysis txt default_models = Inr results"
  shows "list_ex critical (analyzeMessageSecurity (Some results))
           \<longleftrightarrow> kind (run_vulnerability_classifier txt) = ''XSS''
               \<or> kind (run_vulnerability_classifier txt) = ''SQL_INJECTION''
               \<or> kind (run_network_analyzer txt) = ''DDOS''"
proof -
  note d = simulateAnalysis_default [OF assms]
  have v: "run_vulnerability_classifier txt = \<lparr>kind = ''XSS'', confidence = 85 / 100\<rparr>
   \<or> run_vulnerability_classifier txt = \<lparr>kind = ''SQL_INJECTION'', confidence = 82 / 100\<rparr>
   \<or> run_vulnerability_classifier txt = \<lparr>kind = ''PATH_TRAVERSAL'', confidence = 80 / 100\<rparr>
   \<or> run_vulnerability_classifier txt = \<lparr>kind = ''SAFE'', confidence = 95 / 100\<rparr>"
    by (simp add: run_vulnerability_classifier_def)
  have i: "kind (run_intent_classifier txt) = ''Malicious''
           \<longrightarrow> confidence (run_intent_classifier txt) > 5 / 10"
    using run_intent_classifier_cases [of "txt"] by auto
  from v i show ?thesis
    by (auto simp: analyzeMessageSecurity_def d)
qed

lemma analyze_POST_xss:
  assumes "call_python python = Inl e"
  shows "analyze_POST (Some \<lparr>req_text = xss_text, req_models = None\<rparr>) python
           = \<lparr>http_status = 200, payload = SimulationBody xss_results\<rparr>"
  using assms by (simp add: analyze_POST_def simulate_xss) (simp add: xss_text_def)

lemma handleSendMessage_xss:
  "handleSendMessage st (Some xss_results) chat =
     ((Template MessageBlocked, JStr ''security_block''), [AnalyzeRequest],
      st\<lparr>securityAlerts := \<lparr>alert_type = Vulnerability, severity = Critical\<rparr> # securityAlerts st,
         threatLevel := Danger, isSystemBlocked := True,
         messages := messages st
                     @ [SecurityMessage \<lparr>alert_type = Vulnerability, severity = Critical\<rparr>]\<rparr>)"
  by (simp add: handleSendMessage_def analyzeMessageSecurity_xss handleThreatDetected_def Let_def)

text \<open>
  Claim C4, as amended. The analysis route appends no alert and sets no block flag: it
  leaves the admin state as it is. Alerts are made by the chat page from the analysis it
  receives, at most one of each type: one of type vulnerability exactly when the
  vulnerability result is not SAFE, one of type network exactly when the traffic is not
  NORMAL, one of type intent exactly when the intent is Malicious. Each is put in front of
  the page's alert list, and the page's block flag is set, with the threat level danger,
  exactly when one of the alerts is critical (or the flag was set before); for a
  simulated analysis that is when the vulnerability is XSS or SQL_INJECTION or the
  traffic is DDOS, whatever the verdict. So for every text whose simulated verdict (with
  the three default models) is critical or high, a send from a page that is not blocked
  adds at least one alert; and analyzing \<open><script>alert(1)</script>\<close> in simulation
  mode gives the verdict critical, for which the page adds an alert of type vulnerability
  and severity critical, sets its block flag and adds a security message.
\<close>

theorem C4_alert_on_verdict:
  "snd (analyze_route srv request python) = srv
   \<and> (simulateAnalysis txt default_models = Inr results
        \<and> (overall_threat_level results = Some ''critical''
            \<or> overall_threat_level results = Some ''high'') \<longrightarrow>
        analyzeMessageSecurity (Some results) \<noteq> []
        \<and> securityAlerts (snd (snd (handleSendMessage st (Some results) chat)))
            = rev (analyzeMessageSecurity (Some results)) @ securityAlerts st)
   \<and> (call_python python = Inl e \<longrightarrow>
        analyze_POST (Some \<lparr>req_text = xss_text, req_models = None\<rparr>) python
          = \<lparr>http_status = 200, payload = SimulationBody xss_results\<rparr>)
   \<and> overall_threat_level xss_results = Some ''critical''
   \<and> handleSendMessage st (Some xss_results) chat =
       ((Template MessageBlocked, JStr ''security_block''), [AnalyzeRequest],
        st\<lparr>securityAlerts :=
             \<lparr>alert_type = Vulnerability, severity = Critical\<rparr> # securityAlerts st,
           threatLevel := Danger, isSystemBlocked := True,
           messages := messages st
                       @ [SecurityMessage \<lparr>alert_type = Vulnerability, severity = Critical\<rparr>]\<rparr>)
   \<and> (list_ex critical (analyzeMessageSecurity received) \<longrightarrow>
        isSystemBlocked (snd (snd (handleSendMessage st received chat)))
        \<and> threatLevel (snd (snd (handleSendMessage st received chat))) = Danger)
   \<and> (\<not> list_ex critical (analyzeMessageSecurity received) \<longrightarrow>
        isSystemBlocked (snd (snd (handleSendMessage st received chat))) = isSystemBlocked st
        \<and> threatLevel (snd (snd (handleSendMessage st received chat))) = threatLevel st)
   \<and> (\<not> isSystemBlocked st \<and> \<not> isLoading st \<and> trim (input st) \<noteq> [] \<longrightarrow>
        securityAlerts (snd (handleSend st received chat))
          = rev (analyzeMessageSecurity received) @ securityAlerts st
        \<and> isSystemBlocked (snd (handleSend st received chat))
            = list_ex critical (analyzeMessageSecurity received)
        \<and> threatLevel (snd (handleSend st received chat))
            = (if list_ex critical (analyzeMessageSecurity received) then Danger
               else threatLevel st))
   \<and> analyzeMessageSecurity None = []
   \<and> ((\<exists>a \<in> set (analyzeMessageSecurity (Some analysis)). alert_type a = Vulnerability)
        \<longleftrightarrow> (\<exists>v. vulnerability_classifier analysis = Some v \<and> kind v \<noteq> ''SAFE''))
   \<and> ((\<exists>a \<in> set (analyzeMessageSecurity (Some analysis)). alert_type a = Network)
        \<longleftrightarrow> (\<exists>n. network_analyzer analysis = Some n \<and> kind n \<noteq> ''NORMAL''))
   \<and> ((\<exists>a \<in> set (analyzeMessageSecurity (Some analysis)). alert_type a = Intent)
        \<longleftrightarrow> (\<exists>i. intent_classifier analysis = Some i \<and> kind i = ''Malicious''))
   \<and> distinct (map alert_type (analyzeMessageSecurity (Some analysis)))
   \<and> (simulateAnalysis txt default_models = Inr results \<longrightarrow>
        (list_ex critical (analyzeMessageSecurity (Some results))
           \<longleftrightarrow> kind (run_vulnerability_classifier txt) = ''XSS''
               \<or> kind (run_vulnerability_classifier txt) = ''SQL_INJECTION''
               \<or> kind (run_network_analyzer txt) = ''DDOS''))"
proof -
  have 1: "snd (analyze_route srv request python) = srv" by (simp add: analyze_route_def)
  have 2: "simulateAnalysis txt default_models = Inr results
        \<and> (overall_threat_level results = Some ''critical''
            \<or> overall_threat_level results = Some ''high'') \<longrightarrow>
        analyzeMessageSecurity (Some results) \<noteq> []
        \<and> securityAlerts (snd (snd (handleSendMessage st (Some results) chat)))
            = rev (analyzeMessageSecurity (Some results)) @ securityAlerts st"
    using alert_on_high_verdict [of "txt" results]
      handleSendMessage_alerts [of st "Some results" chat] by blast
  have 3: "call_python python = Inl e \<longrightarrow>
        analyze_POST (Some \<lparr>req_text = xss_text, req_models = None\<rparr>) python
          = \<lparr>http_status = 200, payload = SimulationBody xss_results\<rparr>"
    using analyze_POST_xss by blast
  have 4: "overall_threat_level xss_results = Some ''critical''"
    by (simp add: xss_results_def)
  note 5 = handleSendMessage_xss [of st chat]
  have 6: "list_ex critical (analyzeMessageSecurity received) \<longrightarrow>
        isSystemBlocked (snd (snd (handleSendMessage st received chat)))
        \<and> threatLevel (snd (snd (handleSendMessage st received chat))) = Danger"
    by (simp add: handleSendMessage_flag)
  have 7: "\<not> list_ex critical (analyzeMessageSecurity received) \<longrightarrow>
        isSystemBlocked (snd (snd (handleSendMessage st received chat))) = isSystemBlocked st
        \<and> threatLevel (snd (snd (handleSendMessage st received chat))) = threatLevel st"
    by (simp add: handleSendMessage_flag)
  have 8: "\<not> isSystemBlocked st \<and> \<not> isLoading st \<and> trim (input st) \<noteq> [] \<longrightarrow>
        securityAlerts (snd (handleSend st received chat))
          = rev (analyzeMessageSecurity received) @ securityAlerts st
        \<and> isSystemBlocked (snd (handleSend st received chat))
            = list_ex critical (analyzeMessageSecurity received)
        \<and> threatLevel (snd (handleSend st received chat))
            = (if list_ex critical (analyzeMessageSecurity received) then Danger
               else threatLevel st)"
    using handleSend_alerts [of st received chat] by blast
  have 9: "analyzeMessageSecurity None = []" by (simp add: analyzeMessageSecurity_def)
  note 10 = analyzeMessageSecurity_types [of analysis]
  have 11: "simulateAnalysis txt default_models = Inr results \<longrightarrow>
        (list_ex critical (analyzeMessageSecurity (Some results))
           \<longleftrightarrow> kind (run_vulnerability_classifier txt) = ''XSS''
               \<or> kind (run_vulnerability_classifier txt) = ''SQL_INJECTION''
               \<or> kind (run_network_analyzer txt) = ''DDOS'')"
    using simulated_critical_alert [of "txt" results] by blast
  show ?thesis
    by (intro conjI)
       (fact 1 2 3 4 5 6 7 8 9 10 [THEN conjunct1] 10 [THEN conjunct2, THEN conjunct1]
          10 [THEN conjunct2, THEN conjunct2, THEN conjunct1]
          10 [THEN conjunct2, THEN conjunct2, THEN conjunct2] 11)+
qed

text \<open>
  Claim C4 fails as stated: analyzing \<open><script>alert(1)</script>\<close> with the Python server
  down gives the verdict critical, and the alert list and the block flag of the server are
  what they were.
\<close>

theorem C4_alert_on_verdict_counterexample:
  "analyze_route initial_server xss_request (Rejects ''down'')
     = (\<lparr>http_status = 200, payload = SimulationBody xss_results\<rparr>, initial_server)
   \<and> overall_threat_level xss_results = Some ''critical''
   \<and> mockAlerts (snd (analyze_route initial_server xss_request (Rejects ''down'')))
       = mockAlerts initial_server
   \<and> \<not> blocked (systemState (snd (analyze_route initial_server xss_request (Rejects ''down''))))"
proof -
  have p: "call_python (Rejects ''down'') = Inl FetchError" by (simp add: call_python_def)
  show ?thesis
    by (simp add: analyze_route_def xss_request_def analyze_POST_xss [OF p] xss_results_def
          initial_server_def)
qed

lemma analyzeMessageSecurity_ddos:
  "analyzeMessageSecurity (Some ddos_results)
     = [\<lparr>alert_type = Network, severity = Critical\<rparr>]"
  by (simp add: analyzeMessageSecurity_def example_defs)

lemma analyzeMessageSecurity_path:
  "analyzeMessageSecurity (Some path_results)
     = [\<lparr>alert_type = Vulnerability, severity = High\<rparr>]"
  by (simp add: analyzeMessageSecurity_def example_defs)

lemma analyzeMessageSecurity_malicious:
  "analyzeMessageSecurity (Some malicious_results)
     = [\<lparr>alert_type = Intent, severity = High\<rparr>]"
  by (simp add: analyzeMessageSecurity_def example_defs)

lemma trim_ddos: "trim ''ddos'' \<noteq> []"
  by code_simp

lemma trim_path: "trim ''../'' \<noteq> []"
  by code_simp

lemma trim_malicious: "trim ''hack attack'' \<noteq> []"
  by code_simp

theorem C4_alert_on_verdict_witness:
  "simulateAnalysis xss_text default_models = Inr xss_results
   \<and> overall_threat_level xss_results = Some ''critical''
   \<and> analyzeMessageSecurity (Some xss_results) \<noteq> []
   \<and> securityAlerts (snd (snd (handleSendMessage (fresh_page xss_text) (Some xss_results) None)))
       = [\<lparr>alert_type = Vulnerability, severity = Critical\<rparr>]
   \<and> isSystemBlocked (snd (snd (handleSendMessage (fresh_page xss_text) (Some xss_results) None)))
   \<and> call_python (Rejects ''down'') = Inl FetchError
   \<and> analyze_POST xss_request (Rejects ''down'')
       = \<lparr>http_status = 200, payload = SimulationBody xss_results\<rparr>
   \<and> simulateAnalysis ''ddos'' default_models = Inr ddos_results
   \<and> overall_threat_level ddos_results = Some ''high''
   \<and> list_ex critical (analyzeMessageSecurity (Some ddos_results))
   \<and> isSystemBlocked (snd (snd (handleSendMessage (fresh_page ''ddos'') (Some ddos_results) None)))
   \<and> threatLevel (snd (snd (handleSendMessage (fresh_page ''ddos'') (Some ddos_results) None)))
       = Danger
   \<and> securityAlerts (snd (handleSend (fresh_page ''ddos'') (Some ddos_results) None))
       = [\<lparr>alert_type = Network, severity = Critical\<rparr>]
   \<and> isSystemBlocked (snd (handleSend (fresh_page ''ddos'') (Some ddos_results) None))
   \<and> threatLevel (snd (handleSend (fresh_page ''ddos'') (Some ddos_results) None)) = Danger
   \<and> simulateAnalysis ''../'' default_models = Inr path_results
   \<and> overall_threat_level path_results = Some ''high''
   \<and> \<not> list_ex critical (analyzeMessageSecurity (Some path_results))
   \<and> securityAlerts (snd (handleSend (fresh_page ''../'') (Some path_results) None))
       = [\<lparr>alert_type = Vulnerability, severity = High\<rparr>]
   \<and> \<not> isSystemBlocked (snd (handleSend (fresh_page ''../'') (Some path_results) None))
   \<and> threatLevel (snd (handleSend (fresh_page ''../'') (Some path_results) None)) = Safe
   \<and> \<not> isSystemBlocked
         (snd (snd (handleSendMessage (fresh_page ''../'') (Some path_results) None)))
   \<and> simulateAnalysis ''hack attack'' default_models = Inr malicious_results
   \<and> overall_threat_level malicious_results = Some ''high''
   \<and> analyzeMessageSecurity (Some malicious_results) \<noteq> []
   \<and> securityAlerts
         (snd (handleSend (fresh_page ''hack attack'') (Some malicious_results) None))
       = [\<lparr>alert_type = Intent, severity = High\<rparr>]
   \<and> \<not> isSystemBlocked
         (snd (handleSend (fresh_page ''hack attack'') (Some malicious_results) None))"
proof -
  note T = C4_alert_on_verdict [of initial_server xss_request "Rejects ''down''" xss_text
      xss_results "fresh_page xss_text" None FetchError]
  have p: "call_python (Rejects ''down'') = Inl FetchError" by (simp add: call_python_def)
  have c: "overall_threat_level xss_results = Some ''critical''"
    by (rule T [THEN conjunct2, THEN conjunct2, THEN conjunct2, THEN conjunct1])
  have h: "simulateAnalysis xss_text default_models = Inr xss_results
        \<and> (overall_threat_level xss_results = Some ''critical''
            \<or> overall_threat_level xss_results = Some ''high'')"
    using simulate_xss c by simp
  note A = T [THEN conjunct2, THEN conjunct1, THEN mp, OF h]
  have B: "analyze_POST xss_request (Rejects ''down'')
       = \<lparr>http_status = 200, payload = SimulationBody xss_results\<rparr>"
    using T [THEN conjunct2, THEN conjunct2, THEN conjunct1, THEN mp, OF p]
    by (simp add: xss_request_def)
  note C = T [THEN conjunct2, THEN conjunct2, THEN conjunct2, THEN conjunct2, THEN conjunct1]
  have s: "securityAlerts (snd (snd (handleSendMessage (fresh_page xss_text) (Some xss_results) None)))
       = [\<lparr>alert_type = Vulnerability, severity = Critical\<rparr>]"
    unfolding C by (simp add: fresh_page_def)
  have b: "isSystemBlocked (snd (snd (handleSendMessage (fresh_page xss_text) (Some xss_results) None)))"
    unfolding C by simp
  note D = C4_alert_on_verdict [of initial_server xss_request "Rejects ''down''" "''ddos''"
      ddos_results "fresh_page ''ddos''" None FetchError "Some ddos_results"]
  note D' = D [THEN conjunct2, THEN conjunct2, THEN conjunct2, THEN conjunct2, THEN conjunct2]
  have dv: "overall_threat_level ddos_results = Some ''high''"
    by (simp add: ddos_results_def)
  have dc: "list_ex critical (analyzeMessageSecurity (Some ddos_results))"
    by (simp add: analyzeMessageSecurity_ddos)
  note D6 = D' [THEN conjunct1, THEN mp, OF dc]
  have dp: "\<not> isSystemBlocked (fresh_page ''ddos'') \<and> \<not> isLoading (fresh_page ''ddos'')
            \<and> trim (input (fresh_page ''ddos'')) \<noteq> []"
    by (simp add: fresh_page_def trim_ddos)
  note D8 = D' [THEN conjunct2, THEN conjunct2, THEN conjunct1, THEN mp, OF dp]
  have d1: "securityAlerts (snd (handleSend (fresh_page ''ddos'') (Some ddos_results) None))
       = [\<lparr>alert_type = Network, severity = Critical\<rparr>]"
    unfolding D8 [THEN conjunct1] by (simp add: analyzeMessageSecurity_ddos fresh_page_def)
  have d2: "isSystemBlocked (snd (handleSend (fresh_page ''ddos'') (Some ddos_results) None))"
    unfolding D8 [THEN conjunct2, THEN conjunct1] by (rule dc)
  have d3: "threatLevel (snd (handleSend (fresh_page ''ddos'') (Some ddos_results) None)) = Danger"
    unfolding D8 [THEN conjunct2, THEN conjunct2] using dc by simp
  note P = C4_alert_on_verdict [of initial_server xss_request "Rejects ''down''" "''../''"
      path_results "fresh_page ''../''" None FetchError "Some path_results"]
  note P' = P [THEN conjunct2, THEN conjunct2, THEN conjunct2, THEN conjunct2, THEN conjunct2]
  have pv: "overall_threat_level path_results = Some ''high''"
    by (simp add: path_results_def)
  have pc: "\<not> list_ex critical (analyzeMessageSecurity (Some path_results))"
    by (simp add: analyzeMessageSecurity_path)
  note P7 = P' [THEN conjunct2, THEN conjunct1, THEN mp, OF pc]
  have pp: "\<not> isSystemBlocked (fresh_page ''../'') \<and> \<not> isLoading (fresh_page ''../'')
            \<and> trim (input (fresh_page ''../'')) \<noteq> []"
    by (simp add: fresh_page_def trim_path)
  note P8 = P' [THEN conjunct2, THEN conjunct2, THEN conjunct1, THEN mp, OF pp]
  have p1: "securityAlerts (snd (handleSend (fresh_page ''../'') (Some path_results) None))
       = [\<lparr>alert_type = Vulnerability, severity = High\<rparr>]"
    unfolding P8 [THEN conjunct1] by (simp add: analyzeMessageSecurity_path fresh_page_def)
  have p2: "\<not> isSystemBlocked (snd (handleSend (fresh_page ''../'') (Some path_results) None))"
    unfolding P8 [THEN conjunct2, THEN conjunct1] by (rule pc)
  have p3: "threatLevel (snd (handleSend (fresh_page ''../'') (Some path_results) None)) = Safe"
    unfolding P8 [THEN conjunct2, THEN conjunct2] using pc by (simp add: fresh_page_def)
  have p4: "\<not> isSystemBlocked
         (snd (snd (handleSendMessage (fresh_page ''../'') (Some path_results) None)))"
    unfolding P7 [THEN conjunct1] by (simp add: fresh_page_def)
  note M = C4_alert_on_verdict [of initial_server xss_request "Rejects ''down''"
      "''hack attack''" malicious_results "fresh_page ''hack attack''" None FetchError
      "Some malicious_results"]
  note M' = M [THEN conjunct2, THEN conjunct2, THEN conjunct2, THEN conjunct2, THEN conjunct2]
  have mv: "overall_threat_level malicious_results = Some ''high''"
    by (simp add: malicious_results_def)
  have mh: "simulateAnalysis ''hack attack'' default_models = Inr malicious_results
        \<and> (overall_threat_level malicious_results = Some ''critical''
            \<or> overall_threat_level malicious_results = Some ''high'')"
    using simulate_malicious mv by simp
  note M2 = M [THEN conjunct2, THEN conjunct1, THEN mp, OF mh]
  have mq: "\<not> isSystemBlocked (fresh_page ''hack attack'')
            \<and> \<not> isLoading (fresh_page ''hack attack'')
            \<and> trim (input (fresh_page ''hack attack'')) \<noteq> []"
    by (simp add: fresh_page_def trim_malicious)
  note M8 = M' [THEN conjunct2, THEN conjunct2, THEN conjunct1, THEN mp, OF mq]
  have m1: "securityAlerts
         (snd (handleSend (fresh_page ''hack attack'') (Some malicious_results) None))
       = [\<lparr>alert_type = Intent, severity = High\<rparr>]"
    unfolding M8 [THEN conjunct1]
    by (simp add: analyzeMessageSecurity_malicious fresh_page_def)
  have m2: "\<not> isSystemBlocked
         (snd (handleSend (fresh_page ''hack attack'') (Some malicious_results) None))"
    unfolding M8 [THEN conjunct2, THEN conjunct1]
    by (simp add: analyzeMessageSecurity_malicious)
  show ?thesis
    by (intro conjI)
       (fact simulate_xss c A [THEN conjunct1] s b p B simulate_ddos dv dc
          D6 [THEN conjunct1] D6 [THEN conjunct2] d1 d2 d3 simulate_path pv pc p1 p2 p3 p4
          simulate_malicious mv M2 [THEN conjunct1] m1 m2)+
qed

section \<open>The scores of the simulation stay away from the thresholds\<close>

lemma run_vulnerability_classifier_cases:
  "run_vulnerability_classifier t = \<lparr>kind = ''XSS'', confidence = 85 / 100\<rparr>
   \<or> run_vulnerability_classifier t = \<lparr>kind = ''SQL_INJECTION'', confidence = 82 / 100\<rparr>
   \<or> run_vulnerability_classifier t = \<lparr>kind = ''PATH_TRAVERSAL'', confidence = 80 / 100\<rparr>
   \<or> run_vulnerability_classifier t = \<lparr>kind = ''SAFE'', confidence = 95 / 100\<rparr>"
  by (simp add: run_vulnerability_classifier_def)

lemma run_network_analyzer_cases:
  "run_network_analyzer t = \<lparr>kind = ''DDOS'', confidence = 88 / 100\<rparr>
   \<or> run_network_analyzer t = \<lparr>kind = ''PORT_SCAN'', confidence = 85 / 100\<rparr>
   \<or> run_network_analyzer t = \<lparr>kind = ''BRUTE_FORCE'', confidence = 83 / 100\<rparr>
   \<or> run_network_analyzer t = \<lparr>kind = ''NORMAL'', confidence = 90 / 100\<rparr>"
  by (simp add: run_network_analyzer_def)

lemma simulateAnalysis_fields:
  assumes "simulateAnalysis t ms = Inr r"
  shows "vulnerability_classifier r = Some (run_vulnerability_classifier t)
         \<and> network_analyzer r = Some (run_network_analyzer t)
         \<and> (intent_classifier r = None \<or> intent_classifier r = Some (run_intent_classifier t))"
proof -
  have v: "''vulnerability_classifier'' \<in> set ms" and n: "''network_analyzer'' \<in> set ms"
    using assms simulateAnalysis_absent [of ms t] by auto
  then have "indexOf ms ''vulnerability_classifier'' \<noteq> -1" "indexOf ms ''network_analyzer'' \<noteq> -1"
    by (simp_all add: indexOf_found)
  with assms show ?thesis
    by (auto simp: simulateAnalysis_def Let_def split: sum.splits if_splits)
qed

lemma vulnerability_part:
  "(if kind (run_vulnerability_classifier t) \<noteq> ''SAFE''
    then confidence (run_vulnerability_classifier t) * 3 else 0) \<in> {0, 255 / 100, 246 / 100, 240 / 100}"
  using run_vulnerability_classifier_cases [of t] by auto

lemma network_part:
  "(if kind (run_network_analyzer t) \<noteq> ''NORMAL''
    then confidence (run_network_analyzer t) * 2 else 0) \<in> {0, 176 / 100, 170 / 100, 166 / 100}"
  using run_network_analyzer_cases [of t] by auto

lemma intent_part:
  "(if kind (run_intent_classifier t) = ''Malicious'' then confidence (run_intent_classifier t) * (5 / 2)
    else if kind (run_intent_classifier t) = ''Suspicious'' then confidence (run_intent_classifier t) * 1
    else 0) \<in> {0, 1875 / 1000, 65 / 100}"
  using run_intent_classifier_cases [of t] by auto

text \<open>
  Every score that the simulation can reach is 0 or at least 0.65, and at least 0.04 away
  from each of the thresholds 0.5, 1.5 and 2.5.
\<close>

lemma simulated_score_margin:
  assumes "simulateAnalysis t ms = Inr r"
  shows "(spec_weighted_score r = 0 \<or> 13 / 20 \<le> spec_weighted_score r)
         \<and> 1 / 25 \<le> \<bar>spec_weighted_score r - 1 / 2\<bar>
         \<and> 1 / 25 \<le> \<bar>spec_weighted_score r - 3 / 2\<bar>
         \<and> 1 / 25 \<le> \<bar>spec_weighted_score r - 5 / 2\<bar>"
proof -
  define a where "a = (if kind (run_vulnerability_classifier t) \<noteq> ''SAFE''
    then confidence (run_vulnerability_classifier t) * 3 else 0)"
  define b where "b = (if kind (run_network_analyzer t) \<noteq> ''NORMAL''
    then confidence (run_network_analyzer t) * 2 else 0)"
  define c where "c = (if kind (run_intent_classifier t) = ''Malicious'' then confidence (run_intent_classifier t) * (5 / 2)
    else if kind (run_intent_classifier t) = ''Suspicious'' then confidence (run_intent_classifier t) * 1
    else 0)"
  have a: "a \<in> {0, 255 / 100, 246 / 100, 240 / 100}" unfolding a_def by (rule vulnerability_part)
  have b: "b \<in> {0, 176 / 100, 170 / 100, 166 / 100}" unfolding b_def by (rule network_part)
  have c: "c \<in> {0, 1875 / 1000, 65 / 100}" unfolding c_def by (rule intent_part)
  from simulateAnalysis_fields [OF assms]
  have "spec_weighted_score r = a + b + c \<or> spec_weighted_score r = a + b + 0"
    by (auto simp: spec_weighted_score_def a_def b_def c_def)
  with a b c show ?thesis by auto
qed

end
